theory Spec2Isabelle
  imports Complex_Main "HOL-Library.AList" "HOL-Library.Product_Lexorder"
begin

section \<open>Strings\<close>

text \<open>
  Python strings are modelled as \<^typ>\<open>string\<close>. The model is exact on ASCII text, where one
  \<^typ>\<open>char\<close> is one Python character; \<open>str.lower\<close>, \<open>str.strip\<close> and the character
  classes of \<open>re\<close> are given on ASCII. Confidences and coordinates are modelled as exact
  reals; the amounts that the services parse and compare are modelled as doubles.
\<close>

definition is_digit :: "char \<Rightarrow> bool" where
  "is_digit c = (c \<in> set ''0123456789'')"

definition is_alpha :: "char \<Rightarrow> bool" where
  "is_alpha c = (c \<in> set ''abcdefghijklmnopqrstuvwxyzABCDEFGHIJKLMNOPQRSTUVWXYZ'')"

definition is_space :: "char \<Rightarrow> bool" where
  "is_space c = (c \<in> {CHR '' '', CHR 0x09, CHR 0x0A, CHR 0x0B, CHR 0x0C, CHR 0x0D})"

definition lower_char :: "char \<Rightarrow> char" where
  "lower_char c =
     (case map_of (zip ''ABCDEFGHIJKLMNOPQRSTUVWXYZ'' ''abcdefghijklmnopqrstuvwxyz'') c of
        Some d \<Rightarrow> d | None \<Rightarrow> c)"

definition upper_char :: "char \<Rightarrow> char" where
  "upper_char c =
     (case map_of (zip ''abcdefghijklmnopqrstuvwxyz'' ''ABCDEFGHIJKLMNOPQRSTUVWXYZ'') c of
        Some d \<Rightarrow> d | None \<Rightarrow> c)"

definition lower :: "string \<Rightarrow> string" where
  "lower s = map lower_char s"

definition strip :: "string \<Rightarrow> string" where
  "strip s = rev (dropWhile is_space (rev (dropWhile is_space s)))"

fun starts_with :: "string \<Rightarrow> string \<Rightarrow> bool" where
  "starts_with [] s = True"
| "starts_with (p # ps) [] = False"
| "starts_with (p # ps) (c # cs) = (p = c \<and> starts_with ps cs)"

text \<open>\<open>str_in sub s\<close> is Python's \<open>sub in s\<close>.\<close>

fun str_in :: "string \<Rightarrow> string \<Rightarrow> bool" where
  "str_in sub [] = (sub = [])"
| "str_in sub (c # cs) = (starts_with sub (c # cs) \<or> str_in sub cs)"

text \<open>\<open>any(term in name.lower() for term in terms)\<close>.\<close>

definition any_term_in :: "string list \<Rightarrow> string \<Rightarrow> bool" where
  "any_term_in terms name = list_ex (\<lambda>t. str_in t (lower name)) terms"

definition is_alnum :: "char \<Rightarrow> bool" where
  "is_alnum c = (is_alpha c \<or> is_digit c)"

text \<open>\<open>s.split()\<close>: the maximal runs of non-whitespace characters.\<close>

fun split_acc :: "string \<Rightarrow> string \<Rightarrow> string list" where
  "split_acc [] cur = (if cur = [] then [] else [rev cur])"
| "split_acc (c # cs) cur =
     (if is_space c then (if cur = [] then split_acc cs [] else rev cur # split_acc cs [])
      else split_acc cs (c # cur))"

definition split :: "string \<Rightarrow> string list" where
  "split s = split_acc s []"

text \<open>\<open>sep.join(parts)\<close>.\<close>

fun join :: "string \<Rightarrow> string list \<Rightarrow> string" where
  "join sep [] = []"
| "join sep [p] = p"
| "join sep (p # q # ps) = p @ sep @ join sep (q # ps)"

text \<open>\<open>word.capitalize()\<close>.\<close>

definition capitalize :: "string \<Rightarrow> string" where
  "capitalize w = (case w of [] \<Rightarrow> [] | c # cs \<Rightarrow> upper_char c # lower cs)"

text \<open>\<open>s.replace(old, new)\<close> for a non-empty \<open>old\<close>: left to right, without overlaps.\<close>

fun replace :: "string \<Rightarrow> string \<Rightarrow> string \<Rightarrow> string" where
  "replace old new [] = []"
| "replace old new (c # cs) =
     (if old \<noteq> [] \<and> starts_with old (c # cs)
      then new @ replace old new (drop (length old) (c # cs))
      else c # replace old new cs)"

subsection \<open>\<open>float(s)\<close>\<close>

definition digit_value :: "char \<Rightarrow> nat" where
  "digit_value c =
     (case map_of (zip ''0123456789'' [0, 1, 2, 3, 4, 5, 6, 7, 8, 9]) c of
        Some d \<Rightarrow> d | None \<Rightarrow> 0)"

definition digits_value :: "string \<Rightarrow> nat" where
  "digits_value ds = foldl (\<lambda>n c. 10 * n + digit_value c) 0 ds"

text \<open>
  The number that a string of digits, dots and minus signs denotes (the alphabet left by
  the numeric clean-up of the services): an optional leading minus, digits with at most one
  dot, and at least one digit. \<open>None\<close> is a string that \<open>float\<close> rejects with
  \<open>ValueError\<close>.
\<close>

definition decimal_value :: "string \<Rightarrow> real option" where
  "decimal_value s =
     (let neg = (s \<noteq> [] \<and> hd s = CHR ''-'');
          body = (if neg then tl s else s);
          int_part = takeWhile is_digit body;
          rest = dropWhile is_digit body;
          sgn = (if neg then - 1 else 1)
      in case rest of
           [] \<Rightarrow> if int_part = [] then None else Some (sgn * real (digits_value int_part))
         | c # fraction \<Rightarrow>
             if c = CHR ''.'' \<and> list_all is_digit fraction \<and> (int_part \<noteq> [] \<or> fraction \<noteq> [])
             then Some (sgn * (real (digits_value int_part)
                               + real (digits_value fraction) / 10 ^ length fraction))
             else None)"

subsection \<open>Double-precision floats\<close>

text \<open>
  A Python \<open>float\<close> is an IEEE 754 binary64 number: a finite number, an infinity (with
  its sign, \<open>True\<close> for the negative one) or a NaN. Every operation gives the exact
  result rounded to the nearest double, ties to the even mantissa.
\<close>

datatype pyfloat = Finite real | Infinity bool | NaN

definition round_half_even :: "real \<Rightarrow> int" where
  "round_half_even r =
     (let f = \<lfloor>r\<rfloor>
      in if r - of_int f < 1 / 2 then f
         else if r - of_int f > 1 / 2 then f + 1
         else if even f then f else f + 1)"

definition pow2 :: "int \<Rightarrow> real" where
  "pow2 k = (if k \<ge> 0 then 2 ^ nat k else 1 / 2 ^ nat (- k))"

text \<open>
  \<open>normalise n a e\<close> halves or doubles the positive number \<open>a\<close>, at most \<open>n\<close> times,
  until it lies in \<open>[1, 2)\<close>, and counts the exponent in \<open>e\<close>. The exponents of the
  doubles lie between -1074 and 1023, so 2200 steps are enough: a number that is not
  normalised by then is below the smallest or above the largest double.
\<close>

fun normalise :: "nat \<Rightarrow> real \<Rightarrow> int \<Rightarrow> int" where
  "normalise 0 a e = e"
| "normalise (Suc n) a e =
     (if a \<ge> 2 then normalise n (a / 2) (e + 1)
      else if a < 1 then normalise n (a * 2) (e - 1)
      else e)"

definition binary_exponent :: "real \<Rightarrow> int" where
  "binary_exponent r = normalise 2200 \<bar>r\<bar> 0"

text \<open>
  The nearest number with a 53-bit mantissa, or with the fixed spacing of the subnormal
  numbers below the exponent -1022.
\<close>

definition round_double :: "real \<Rightarrow> real" where
  "round_double r =
     (if r = 0 then 0
      else let e = max (binary_exponent r) (- 1022);
               ulp = pow2 (e - 52)
           in ulp * of_int (round_half_even (r / ulp)))"

definition to_double :: "real \<Rightarrow> pyfloat" where
  "to_double r =
     (let d = round_double r
      in if \<bar>d\<bar> \<ge> 2 ^ 1024 then Infinity (r < 0) else Finite d)"

fun fneg :: "pyfloat \<Rightarrow> pyfloat" where
  "fneg (Finite a) = Finite (- a)"
| "fneg (Infinity s) = Infinity (\<not> s)"
| "fneg NaN = NaN"

fun fadd :: "pyfloat \<Rightarrow> pyfloat \<Rightarrow> pyfloat" where
  "fadd (Finite a) (Finite b) = to_double (a + b)"
| "fadd NaN b = NaN"
| "fadd a NaN = NaN"
| "fadd (Infinity s) (Infinity s') = (if s = s' then Infinity s else NaN)"
| "fadd (Infinity s) (Finite b) = Infinity s"
| "fadd (Finite a) (Infinity s) = Infinity s"

definition fsub :: "pyfloat \<Rightarrow> pyfloat \<Rightarrow> pyfloat" where
  "fsub a b = fadd a (fneg b)"

fun fabs :: "pyfloat \<Rightarrow> pyfloat" where
  "fabs (Finite a) = Finite \<bar>a\<bar>"
| "fabs (Infinity s) = Infinity False"
| "fabs NaN = NaN"

text \<open>\<open>a > c\<close> and \<open>a >= c\<close> for a float \<open>a\<close> and a decimal literal \<open>c\<close>.\<close>

fun fgreater :: "pyfloat \<Rightarrow> real \<Rightarrow> bool" where
  "fgreater (Finite a) c = (a > round_double c)"
| "fgreater (Infinity s) c = (\<not> s)"
| "fgreater NaN c = False"

fun fgreater_eq :: "pyfloat \<Rightarrow> real \<Rightarrow> bool" where
  "fgreater_eq (Finite a) c = (a \<ge> round_double c)"
| "fgreater_eq (Infinity s) c = (\<not> s)"
| "fgreater_eq NaN c = False"

text \<open>
  \<open>float(s)\<close> on a string of digits, dots and minus signs: the double nearest to the
  number that the string denotes.
\<close>

definition py_float :: "string \<Rightarrow> pyfloat option" where
  "py_float s = map_option to_double (decimal_value s)"

subsection \<open>Regular expressions of \<open>re\<close>\<close>

text \<open>
  The patterns of the services are regular; matching is by derivatives. \<open>rmatch r s\<close> holds
  when the whole of \<open>s\<close> matches \<open>r\<close>, \<open>re_search r s\<close> is \<open>re.search(r, s) is not None\<close>.
\<close>

datatype rexp =
  Zero | One | Atom "char \<Rightarrow> bool" | Alt rexp rexp | Seq rexp rexp | Star rexp

fun nullable :: "rexp \<Rightarrow> bool" where
  "nullable Zero = False"
| "nullable One = True"
| "nullable (Atom P) = False"
| "nullable (Alt r s) = (nullable r \<or> nullable s)"
| "nullable (Seq r s) = (nullable r \<and> nullable s)"
| "nullable (Star r) = True"

fun alt :: "rexp \<Rightarrow> rexp \<Rightarrow> rexp" where
  "alt Zero s = s"
| "alt r Zero = r"
| "alt r s = Alt r s"

fun seq :: "rexp \<Rightarrow> rexp \<Rightarrow> rexp" where
  "seq Zero s = Zero"
| "seq r Zero = Zero"
| "seq One s = s"
| "seq r s = Seq r s"

fun deriv :: "char \<Rightarrow> rexp \<Rightarrow> rexp" where
  "deriv c Zero = Zero"
| "deriv c One = Zero"
| "deriv c (Atom P) = (if P c then One else Zero)"
| "deriv c (Alt r s) = alt (deriv c r) (deriv c s)"
| "deriv c (Seq r s) =
     (if nullable r then alt (seq (deriv c r) s) (deriv c s) else seq (deriv c r) s)"
| "deriv c (Star r) = seq (deriv c r) (Star r)"

fun rmatch :: "rexp \<Rightarrow> string \<Rightarrow> bool" where
  "rmatch r [] = nullable r"
| "rmatch r (c # cs) = rmatch (deriv c r) cs"

definition RPlus :: "rexp \<Rightarrow> rexp" where
  "RPlus r = Seq r (Star r)"

definition ROpt :: "rexp \<Rightarrow> rexp" where
  "ROpt r = Alt One r"

text \<open>\<open>r{m,m+k}\<close>: \<open>m\<close> copies of \<open>r\<close> followed by up to \<open>k\<close> more.\<close>

fun RRep :: "nat \<Rightarrow> nat \<Rightarrow> rexp \<Rightarrow> rexp" where
  "RRep 0 0 r = One"
| "RRep 0 (Suc k) r = ROpt (Seq r (RRep 0 k r))"
| "RRep (Suc m) k r = Seq r (RRep m k r)"

definition RChr :: "char \<Rightarrow> rexp" where
  "RChr a = Atom (\<lambda>c. c = a)"

definition RAny :: rexp where
  "RAny = Atom (\<lambda>c. True)"

text \<open>A search finds the pattern anywhere in the string.\<close>

definition re_search :: "rexp \<Rightarrow> string \<Rightarrow> bool" where
  "re_search r s = rmatch (Seq (Star RAny) (Seq r (Star RAny))) s"

text \<open>
  \<open>re.match(r'^...$', s)\<close>: the whole string, where \<open>$\<close> also matches before one trailing
  newline.
\<close>

definition re_match_anchored :: "rexp \<Rightarrow> string \<Rightarrow> bool" where
  "re_match_anchored r s =
     (rmatch r s \<or> (s \<noteq> [] \<and> last s = CHR 0x0A \<and> rmatch r (butlast s)))"

section \<open>Data model (app/models/schemas.py)\<close>

datatype DocumentType = INVOICE | RECEIPT | BUSINESS_CARD | FORM | CONTRACT | CUSTOM

datatype ConfidenceLevel = HIGH | MEDIUM | LOW

datatype ProcessingStatus = PENDING | PROCESSING | COMPLETED | FAILED | VALIDATING

record BoundingBox =
  x1 :: int
  y1 :: int
  x2 :: int
  y2 :: int

record TextBlock =
  "text" :: string
  block_confidence :: real
  bounding_box :: BoundingBox
  font_size :: int
  line_number :: int

record FieldLocation =
  x :: real
  y :: real
  width :: real
  height :: real

text \<open>
  \<open>ExtractedField.value\<close> has type \<open>Any\<close>. The values come from the JSON of the
  oracle: \<open>None\<close>, a string, or any other value (a number, a boolean, an array, an
  object), which is represented by its truth value and by the text that \<open>str()\<close> gives
  it. \<open>truthy v\<close> is \<open>bool(v)\<close> and \<open>py_str v\<close> is \<open>str(v)\<close>.
\<close>

datatype pyvalue = VNone | VStr string | VOther bool string

fun truthy :: "pyvalue \<Rightarrow> bool" where
  "truthy VNone = False"
| "truthy (VStr s) = (s \<noteq> [])"
| "truthy (VOther b s) = b"

fun py_str :: "pyvalue \<Rightarrow> string" where
  "py_str VNone = ''None''"
| "py_str (VStr s) = s"
| "py_str (VOther b s) = s"

record ExtractedField =
  "value" :: pyvalue
  confidence :: real
  confidence_level :: ConfidenceLevel
  location :: "FieldLocation option"
  original_text :: "string option"
  validation_errors :: "string list"

text \<open>
  A Python \<open>dict\<close> keeps insertion order: it is an association list with distinct keys.
  \<^const>\<open>AList.update\<close> is \<open>d[k] = v\<close>: the value is replaced in place when the key is
  present and the pair is appended otherwise. \<open>dict_update d e\<close> is \<open>d.update(e)\<close>, and
  also \<open>{**d, **e}\<close>.
\<close>

type_synonym fields = "(string \<times> ExtractedField) list"

definition dict_update :: "('k \<times> 'v) list \<Rightarrow> ('k \<times> 'v) list \<Rightarrow> ('k \<times> 'v) list" where
  "dict_update d e = fold (\<lambda>(k, v). AList.update k v) e d"

text \<open>\<open>_get_confidence_level\<close>, the same in every service.\<close>

definition get_confidence_level :: "real \<Rightarrow> ConfidenceLevel" where
  "get_confidence_level c = (if c \<ge> 0.9 then HIGH else if c \<ge> 0.7 then MEDIUM else LOW)"

section \<open>Field validation and correction (production\_document\_service.py)\<close>

definition RSeq :: "rexp list \<Rightarrow> rexp" where
  "RSeq rs = foldr Seq rs One"

definition date_sep :: rexp where
  "date_sep = Atom (\<lambda>c. c = CHR ''-'' \<or> c = CHR ''/'')"

text \<open>\<open>[\d,]+\.?\d*\<close>\<close>

definition amount_pattern :: rexp where
  "amount_pattern =
     RSeq [RPlus (Atom (\<lambda>c. is_digit c \<or> c = CHR '','')), ROpt (RChr CHR ''.''),
           Star (Atom is_digit)]"

text \<open>
  \<open>\d{1,2}[-/]\d{1,2}[-/]\d{2,4}\<close>, \<open>\d{4}[-/]\d{1,2}[-/]\d{1,2}\<close>,
  \<open>[A-Za-z]+ \d{1,2}, \d{4}\<close> and \<open>\d{1,2} [A-Za-z]+ \d{4}\<close>.
\<close>

definition date_patterns :: "rexp list" where
  "date_patterns =
     [RSeq [RRep 1 1 (Atom is_digit), date_sep, RRep 1 1 (Atom is_digit), date_sep,
            RRep 2 2 (Atom is_digit)],
      RSeq [RRep 4 0 (Atom is_digit), date_sep, RRep 1 1 (Atom is_digit), date_sep,
            RRep 1 1 (Atom is_digit)],
      RSeq [RPlus (Atom is_alpha), RChr CHR '' '', RRep 1 1 (Atom is_digit), RChr CHR '','',
            RChr CHR '' '', RRep 4 0 (Atom is_digit)],
      RSeq [RRep 1 1 (Atom is_digit), RChr CHR '' '', RPlus (Atom is_alpha), RChr CHR '' '',
            RRep 4 0 (Atom is_digit)]]"

text \<open>\<open>^[a-zA-Z0-9._%+-]+@[a-zA-Z0-9.-]+\.[a-zA-Z]{2,}$\<close>\<close>

definition email_pattern :: rexp where
  "email_pattern =
     RSeq [RPlus (Atom (\<lambda>c. is_alnum c \<or> c \<in> set ''._%+-'')), RChr CHR ''@'',
           RPlus (Atom (\<lambda>c. is_alnum c \<or> c \<in> set ''.-'')), RChr CHR ''.'',
           RRep 2 0 (Atom is_alpha), Star (Atom is_alpha)]"

definition is_valid_date_format :: "string \<Rightarrow> bool" where
  "is_valid_date_format date_str = list_ex (\<lambda>pattern. re_search pattern date_str) date_patterns"

definition currency_terms :: "string list" where
  "currency_terms = [''amount'', ''total'', ''price'', ''cost'', ''subtotal'']"

definition date_terms :: "string list" where
  "date_terms = [''date'', ''due'']"

definition name_terms :: "string list" where
  "name_terms = [''name'', ''vendor'', ''customer'', ''merchant'']"

text \<open>\<open>re.sub(r'\s+', ' ', s)\<close>\<close>

function collapse_whitespace :: "string \<Rightarrow> string" where
  "collapse_whitespace [] = []"
| "collapse_whitespace (c # cs) =
     (if is_space c then CHR '' '' # collapse_whitespace (dropWhile is_space cs)
      else c # collapse_whitespace cs)"
  by pat_completeness auto
termination
  by (relation "measure length") (auto simp: less_Suc_eq_le length_dropWhile_le)

definition clean_field_value :: "string \<Rightarrow> pyvalue \<Rightarrow> string" where
  "clean_field_value field_name v =
     (if \<not> truthy v then []
      else let cleaned = strip (py_str v)
           in if any_term_in currency_terms field_name then collapse_whitespace cleaned
              else if any_term_in date_terms field_name
                then replace ''.'' ''-'' (replace ''/'' ''-'' cleaned)
              else if any_term_in name_terms field_name
                then join '' '' (map capitalize (split cleaned))
              else cleaned)"

definition validate_field_content :: "string \<Rightarrow> pyvalue \<Rightarrow> DocumentType \<Rightarrow> string list" where
  "validate_field_content field_name v document_type =
     (if \<not> truthy v then []
      else let value_str = strip (py_str v)
           in if any_term_in currency_terms field_name
                then (if \<not> re_search amount_pattern value_str
                      then [''Invalid amount format''] else [])
              else if any_term_in date_terms field_name
                then (if \<not> is_valid_date_format value_str
                      then [''Invalid date format''] else [])
              else if str_in ''email'' (lower field_name)
                then (if \<not> re_match_anchored email_pattern value_str
                      then [''Invalid email format''] else [])
              else [])"

text \<open>
  \<open>re.sub(r'(\d)S(\d)', r'\1R\2', s)\<close> for a one-character class \<open>S\<close> and a replacement
  text \<open>R\<close>: matches are taken left to right and do not overlap.
\<close>

fun sub_between_digits :: "(char \<Rightarrow> bool) \<Rightarrow> string \<Rightarrow> string \<Rightarrow> string" where
  "sub_between_digits S R (a # b # c # rest) =
     (if is_digit a \<and> S b \<and> is_digit c then a # R @ c # sub_between_digits S R rest
      else a # sub_between_digits S R (b # c # rest))"
| "sub_between_digits S R s = s"

definition auto_correct_field :: "string \<Rightarrow> pyvalue \<Rightarrow> string list \<Rightarrow> string" where
  "auto_correct_field field_name v errors =
     (if errors = [] \<or> \<not> truthy v then py_str v
      else let corrected = strip (py_str v)
           in if ''Invalid amount format'' \<in> set errors
                then sub_between_digits (\<lambda>c. c = CHR ''l'') ''.1''
                       (sub_between_digits (\<lambda>c. c = CHR ''o'') ''.0'' corrected)
              else if ''Invalid date format'' \<in> set errors
                then sub_between_digits (\<lambda>c. c = CHR ''.'' \<or> c = CHR ''o'') ''/'' corrected
              else corrected)"

text \<open>
  One iteration of the loop of \<open>_validate_and_correct_fields\<close>. The corrected value is a
  string, so that \<open>corrected_value != field.value\<close> holds for every value that is not a
  string.
\<close>

definition validate_and_correct_field ::
  "string \<Rightarrow> ExtractedField \<Rightarrow> DocumentType \<Rightarrow> ExtractedField" where
  "validate_and_correct_field field_name field document_type =
     (let errors = validate_field_content field_name (value field) document_type;
          corrected_value = auto_correct_field field_name (value field) errors;
          c0 = confidence field;
          c1 = (if errors \<noteq> [] then c0 * 0.8 else c0);
          c2 = (if VStr corrected_value \<noteq> value field then c1 * 0.9 else c1)
      in \<lparr>value = VStr corrected_value, confidence = c2,
          confidence_level = get_confidence_level c2, location = location field,
          original_text = original_text field, validation_errors = errors\<rparr>)"

definition validate_and_correct_fields :: "fields \<Rightarrow> DocumentType \<Rightarrow> fields" where
  "validate_and_correct_fields extracted_data document_type =
     map (\<lambda>(field_name, field).
            (field_name, validate_and_correct_field field_name field document_type))
       extracted_data"

text \<open>One iteration of the loop of \<open>_refine_extracted_fields\<close>.\<close>

definition refine_extracted_field ::
  "string \<Rightarrow> ExtractedField \<Rightarrow> DocumentType \<Rightarrow> ExtractedField" where
  "refine_extracted_field field_name field document_type =
     (let cleaned_value = clean_field_value field_name (value field);
          errors = validate_field_content field_name (VStr cleaned_value) document_type;
          adjusted_confidence =
            (if errors \<noteq> [] then confidence field * 0.7 else confidence field)
      in \<lparr>value = VStr cleaned_value, confidence = adjusted_confidence,
          confidence_level = get_confidence_level adjusted_confidence,
          location = location field, original_text = original_text field,
          validation_errors = errors\<rparr>)"

definition refine_extracted_fields :: "fields \<Rightarrow> DocumentType \<Rightarrow> fields" where
  "refine_extracted_fields fs document_type =
     map (\<lambda>(field_name, field). (field_name, refine_extracted_field field_name field document_type))
       fs"

section \<open>The extraction oracle (gemini\_service.py)\<close>

datatype py_error =
  ZeroDivisionError | TypeError | ValueError | ValidationError | UnidentifiedImageError

text \<open>
  The uploaded bytes, as far as the services look at them: whether \<open>Image.open\<close> succeeds,
  whether \<open>_prepare_image\<close> succeeds, whether the enhancement steps and the JPEG encoding
  succeed, and the accuracy mode whose enhancement has been applied, if any.
\<close>

record file_data =
  decodable :: bool
  preparable :: bool
  enhanceable :: bool
  enhanced_for :: "string option"

text \<open>
  A response text is represented by what the JSON extraction of the service that reads it
  makes of it: \<open>Json\<close> holds the parsed top-level object, with distinct keys in document
  order; \<open>Text\<close> is a response in which no JSON is found or whose JSON does not parse;
  \<open>JsonOther\<close> is a response that \<open>_parse_json_response\<close> parses to a JSON value other
  than an object, with the truth value of that value.
  A member of the object is either a JSON object (\<open>JDict\<close>, with its \<open>value\<close>,
  \<open>confidence\<close> and \<open>original_text\<close> members if present, the first and the last any
  JSON value) or any other JSON value (\<open>JOther\<close>, with its \<open>str()\<close>).
\<close>

datatype jconf = ConfAbsent | ConfNumber real | ConfInvalid

datatype jfield = JDict "pyvalue option" jconf "pyvalue option" | JOther string

datatype reply = Text string | Json "(string \<times> jfield) list" | JsonOther bool

datatype prompt =
  GeneralPrompt DocumentType
| FocusedPrompt "string list"
| CustomPrompt "string list"
| ExtractionPrompt DocumentType

text \<open>
  The configuration of \<open>GeminiService\<close> and the remote model: \<open>use_real_api\<close> stands for
  \<open>self.use_real_api and self.model\<close>, and \<open>generate_content img p\<close> is the text of
  \<open>self.model.generate_content([p, img])\<close>, \<open>None\<close> when the call raises.
  \<open>detected_type\<close> is the type that \<open>_detect_document_type_advanced\<close> returns; that
  function catches every exception.
\<close>

record gemini =
  use_real_api :: bool
  generate_content :: "file_data \<Rightarrow> prompt \<Rightarrow> reply option"
  detected_type :: "file_data \<Rightarrow> DocumentType"

text \<open>
  \<open>sub in prompt.lower()\<close> for the two phrases \<open>_get_mock_simple_response\<close> looks for. The
  fixed text of every prompt contains \<open>extract\<close>; none contains \<open>document type\<close>, which can
  only come from the field names that a prompt lists, joined by \<open>', '\<close>.
\<close>

fun prompt_mentions_document_type :: "prompt \<Rightarrow> bool" where
  "prompt_mentions_document_type (GeneralPrompt t) = False"
| "prompt_mentions_document_type (FocusedPrompt names) =
     str_in ''document type'' (lower (join '', '' names))"
| "prompt_mentions_document_type (CustomPrompt names) =
     str_in ''document type'' (lower (join '', '' names))"
| "prompt_mentions_document_type (ExtractionPrompt t) = False"

definition mock_json :: "(string \<times> jfield) list" where
  "mock_json =
     [(''vendor_name'',
         JDict (Some (VStr ''ACME Corporation'')) (ConfNumber 0.95)
           (Some (VStr ''ACME Corporation''))),
      (''invoice_number'',
         JDict (Some (VStr ''INV-2025-001'')) (ConfNumber 0.92) (Some (VStr ''INV-2025-001''))),
      (''total_amount'',
         JDict (Some (VStr ''$1,234.56'')) (ConfNumber 0.98) (Some (VStr ''$1,234.56''))),
      (''invoice_date'',
         JDict (Some (VStr ''2025-06-18'')) (ConfNumber 0.90) (Some (VStr ''18/06/2025'')))]"

definition get_mock_simple_response :: "prompt \<Rightarrow> reply" where
  "get_mock_simple_response p =
     (if prompt_mentions_document_type p then Text ''INVOICE|0.95'' else Json mock_json)"

definition get_gemini_response_simple :: "gemini \<Rightarrow> file_data \<Rightarrow> prompt \<Rightarrow> reply" where
  "get_gemini_response_simple g img p =
     (if use_real_api g
      then (case generate_content g img p of
              Some response \<Rightarrow> response
            | None \<Rightarrow> get_mock_simple_response p)
      else get_mock_simple_response p)"

text \<open>
  \<open>ExtractedField(...)\<close>: when the object is built, the model validates \<open>confidence\<close>
  against \<open>ge=0, le=1\<close> and \<open>original_text\<close> against \<open>Optional[str]\<close>, which accepts
  \<open>None\<close> and strings only; \<open>value\<close> is \<open>Any\<close>.
\<close>

definition new_extracted_field ::
  "pyvalue \<Rightarrow> real \<Rightarrow> pyvalue \<Rightarrow> py_error + ExtractedField" where
  "new_extracted_field v c original =
     (if \<not> (0 \<le> c \<and> c \<le> 1) then Inl ValidationError
      else case original of
             VNone \<Rightarrow>
               Inr \<lparr>value = v, confidence = c, confidence_level = get_confidence_level c,
                     location = None, original_text = None, validation_errors = []\<rparr>
           | VStr t \<Rightarrow>
               Inr \<lparr>value = v, confidence = c, confidence_level = get_confidence_level c,
                     location = None, original_text = Some t, validation_errors = []\<rparr>
           | VOther b t \<Rightarrow> Inl ValidationError)"

text \<open>\<open>float(field_data.get('confidence', 0.5))\<close>\<close>

definition confidence_of :: "jconf \<Rightarrow> py_error + real" where
  "confidence_of jc =
     (case jc of ConfAbsent \<Rightarrow> Inr 0.5 | ConfNumber r \<Rightarrow> Inr r | ConfInvalid \<Rightarrow> Inl ValueError)"

section \<open>Extraction passes (production\_document\_service.py)\<close>

text \<open>The loop of \<open>_parse_enhanced_response\<close>; an exception leaves the loop.\<close>

fun parse_items :: "(string \<times> jfield) list \<Rightarrow> fields \<Rightarrow> py_error + fields" where
  "parse_items [] extracted_fields = Inr extracted_fields"
| "parse_items ((field_name, JDict (Some v) jc original) # rest) extracted_fields =
     (case confidence_of jc of
        Inl e \<Rightarrow> Inl e
      | Inr c \<Rightarrow>
          (case new_extracted_field v c (case original of Some t \<Rightarrow> t | None \<Rightarrow> v) of
             Inl e \<Rightarrow> Inl e
           | Inr field \<Rightarrow> parse_items rest (AList.update field_name field extracted_fields)))"
| "parse_items ((field_name, field_data) # rest) extracted_fields =
     parse_items rest extracted_fields"

definition parse_enhanced_response :: "reply \<Rightarrow> fields" where
  "parse_enhanced_response response =
     (case response of
        Json data \<Rightarrow> (case parse_items data [] of Inl e \<Rightarrow> [] | Inr fs \<Rightarrow> fs)
      | _ \<Rightarrow> [])"

text \<open>
  The passes and steps of a session, recorded in the order in which they are entered. A
  function that records returns the record together with its result.
\<close>

datatype pass = GENERAL_PASS | FOCUSED_PASS | REFINEMENT_PASS | CUSTOM_PASS | VALIDATION_STEP

definition extract_with_enhanced_prompt ::
  "gemini \<Rightarrow> file_data \<Rightarrow> DocumentType \<Rightarrow> py_error + fields" where
  "extract_with_enhanced_prompt g image_data document_type =
     (if \<not> decodable image_data then Inl UnidentifiedImageError
      else Inr (parse_enhanced_response
                  (get_gemini_response_simple g image_data (GeneralPrompt document_type))))"

definition critical_fields :: "DocumentType \<Rightarrow> string list" where
  "critical_fields document_type =
     (case document_type of
        INVOICE \<Rightarrow> [''vendor_name'', ''invoice_number'', ''total_amount'', ''invoice_date'']
      | RECEIPT \<Rightarrow> [''merchant_name'', ''total_amount'', ''transaction_date'']
      | BUSINESS_CARD \<Rightarrow> [''full_name'', ''company'']
      | _ \<Rightarrow> [])"

definition missing_fields :: "DocumentType \<Rightarrow> fields \<Rightarrow> string list" where
  "missing_fields document_type existing_fields =
     filter (\<lambda>field. case map_of existing_fields field of
                        None \<Rightarrow> True | Some f \<Rightarrow> \<not> truthy (value f))
       (critical_fields document_type)"

definition extract_missing_fields ::
  "gemini \<Rightarrow> file_data \<Rightarrow> DocumentType \<Rightarrow> fields \<Rightarrow> pass list \<times> (py_error + fields)" where
  "extract_missing_fields g image_data document_type existing_fields =
     (let missing = missing_fields document_type existing_fields
      in if missing = [] then ([], Inr [])
         else if \<not> decodable image_data then ([FOCUSED_PASS], Inl UnidentifiedImageError)
         else ([FOCUSED_PASS],
               Inr (parse_enhanced_response
                      (get_gemini_response_simple g image_data (FocusedPrompt missing)))))"

definition extract_custom_fields ::
  "gemini \<Rightarrow> file_data \<Rightarrow> string list \<Rightarrow> py_error + fields" where
  "extract_custom_fields g image_data custom_fields =
     (if custom_fields = [] then Inr []
      else if \<not> decodable image_data then Inl UnidentifiedImageError
      else Inr (parse_enhanced_response
                  (get_gemini_response_simple g image_data (CustomPrompt custom_fields))))"

text \<open>\<open>combined_fields = {**general_fields, **focused_fields}\<close>\<close>

definition combine_fields :: "fields \<Rightarrow> fields \<Rightarrow> fields" where
  "combine_fields general_fields focused_fields = dict_update general_fields focused_fields"

text \<open>\<open>custom_fields\<close> is \<open>[]\<close> when the caller passes \<open>None\<close> or an empty list.\<close>

definition multi_pass_extraction ::
  "gemini \<Rightarrow> file_data \<Rightarrow> DocumentType \<Rightarrow> string list \<Rightarrow> pass list \<times> (py_error + fields)" where
  "multi_pass_extraction g image_data document_type custom_fields =
     (case extract_with_enhanced_prompt g image_data document_type of
        Inl e \<Rightarrow> ([GENERAL_PASS], Inl e)
      | Inr general_fields \<Rightarrow>
          (case extract_missing_fields g image_data document_type general_fields of
             (focused_log, Inl e) \<Rightarrow> (GENERAL_PASS # focused_log, Inl e)
           | (focused_log, Inr focused_fields) \<Rightarrow>
               (let combined_fields = combine_fields general_fields focused_fields;
                    refined_fields = refine_extracted_fields combined_fields document_type;
                    log = GENERAL_PASS # focused_log @ [REFINEMENT_PASS]
                in if custom_fields \<noteq> []
                   then (case extract_custom_fields g image_data custom_fields of
                           Inl e \<Rightarrow> (log @ [CUSTOM_PASS], Inl e)
                         | Inr custom_extracted \<Rightarrow>
                             (log @ [CUSTOM_PASS],
                              Inr (dict_update refined_fields custom_extracted)))
                   else (log, Inr refined_fields))))"

section \<open>Simulated coordinates and calibration (production\_document\_service.py)\<close>

text \<open>Python's \<open>a % b\<close> on floats, for a positive \<open>b\<close>.\<close>

definition fmod :: "real \<Rightarrow> real \<Rightarrow> real" where
  "fmod a b = a - b * of_int \<lfloor>a / b\<rfloor>"

text \<open>
  The location computed by \<open>_add_spatial_coordinates\<close> for the field at position \<open>i\<close>.
  \<open>hash\<close> is Python's built-in string hash, a parameter of the model. In the source the
  width is \<open>0.3 + (0.2 * hash(field_name) % 3) / 3\<close>, where \<open>*\<close> and \<open>%\<close> associate to
  the left.
\<close>

definition simulated_location :: "(string \<Rightarrow> int) \<Rightarrow> nat \<Rightarrow> nat \<Rightarrow> string \<Rightarrow> FieldLocation" where
  "simulated_location hash field_count i field_name =
     \<lparr>x = 0.1 + 0.8 * real (i mod 2),
      y = 0.1 + 0.8 * real i / real field_count,
      width = 0.3 + fmod (0.2 * real_of_int (hash field_name)) 3 / 3,
      height = 0.05\<rparr>"

definition add_spatial_coordinates :: "(string \<Rightarrow> int) \<Rightarrow> fields \<Rightarrow> fields" where
  "add_spatial_coordinates hash extracted_data =
     map (\<lambda>(i, (field_name, field)).
            (field_name,
             field\<lparr>location :=
               Some (simulated_location hash (length extracted_data) i field_name)\<rparr>))
       (enumerate 0 extracted_data)"

text \<open>
  One iteration of the loop of \<open>_calibrate_confidence\<close>: first the value of the local
  variable \<open>calibrated_confidence\<close> at the end of the iteration, then the field built
  from it.
\<close>

definition calibrated_confidence :: "string \<Rightarrow> string \<Rightarrow> ExtractedField \<Rightarrow> real" where
  "calibrated_confidence accuracy_mode field_name field =
     (let base_confidence = confidence field;
          c1 = (if accuracy_mode = ''high'' then base_confidence * 0.95
                else if accuracy_mode = ''fast'' then base_confidence * 0.9
                else base_confidence);
          c2 = (if field_name \<in> set [''total_amount'', ''invoice_number'', ''vendor_name'']
                then (if base_confidence > 0.8 then min 0.98 (c1 * 1.05) else c1)
                else c1);
          c3 = (if validation_errors field \<noteq> [] then c2 * 0.7 else c2)
      in max 0 (min 1 c3))"

definition calibrate_field :: "string \<Rightarrow> string \<Rightarrow> ExtractedField \<Rightarrow> ExtractedField" where
  "calibrate_field accuracy_mode field_name field =
     field\<lparr>confidence := calibrated_confidence accuracy_mode field_name field,
           confidence_level :=
             get_confidence_level (calibrated_confidence accuracy_mode field_name field)\<rparr>"

definition calibrate_confidence :: "fields \<Rightarrow> DocumentType \<Rightarrow> string \<Rightarrow> fields" where
  "calibrate_confidence extracted_data document_type accuracy_mode =
     map (\<lambda>(field_name, field). (field_name, calibrate_field accuracy_mode field_name field))
       extracted_data"

section \<open>Document-level confidence (production\_document\_service.py)\<close>

definition critical_field_patterns :: "string list" where
  "critical_field_patterns = [''amount'', ''total'', ''number'', ''date'', ''name'']"

definition field_weight :: "string \<Rightarrow> real" where
  "field_weight field_name = (if any_term_in critical_field_patterns field_name then 2 else 1)"

text \<open>The loop of \<open>_calculate_weighted_confidence\<close>, carrying \<open>(total_weight, weighted_sum)\<close>.\<close>

fun weighted_loop :: "fields \<Rightarrow> real \<times> real \<Rightarrow> real \<times> real" where
  "weighted_loop [] acc = acc"
| "weighted_loop ((field_name, field) # rest) (total_weight, weighted_sum) =
     weighted_loop rest
       (total_weight + field_weight field_name,
        weighted_sum + confidence field * field_weight field_name)"

definition calculate_weighted_confidence :: "fields \<Rightarrow> real" where
  "calculate_weighted_confidence extracted_data =
     (if extracted_data = [] then 0
      else (let (total_weight, weighted_sum) = weighted_loop extracted_data (0, 0)
            in if total_weight > 0 then weighted_sum / total_weight else 0))"

section \<open>Single-call extraction (gemini\_service.py)\<close>

definition mock_field :: "string \<Rightarrow> real \<Rightarrow> ExtractedField" where
  "mock_field v c =
     \<lparr>value = VStr v, confidence = c, confidence_level = get_confidence_level c,
      location = None, original_text = Some v, validation_errors = []\<rparr>"

text \<open>\<open>_get_mock_extraction\<close>, converted as in the fallback of \<open>extract_fields\<close>.\<close>

definition mock_extraction :: "DocumentType \<Rightarrow> fields" where
  "mock_extraction document_type =
     (case document_type of
        INVOICE \<Rightarrow>
          [(''vendor_name'', mock_field ''ACME Corporation'' 0.95),
           (''invoice_number'', mock_field ''INV-2024-001'' 0.90),
           (''invoice_date'', mock_field ''2024-01-15'' 0.92),
           (''total_amount'', mock_field ''1,234.56'' 0.95),
           (''currency'', mock_field ''USD'' 0.88),
           (''vendor_address'', mock_field ''123 Business St, City, State 12345'' 0.85),
           (''subtotal'', mock_field ''1,134.56'' 0.90),
           (''tax_amount'', mock_field ''100.00'' 0.88)]
      | RECEIPT \<Rightarrow>
          [(''merchant_name'', mock_field ''Coffee Shop'' 0.92),
           (''transaction_date'', mock_field ''2024-01-15'' 0.90),
           (''total_amount'', mock_field ''15.50'' 0.95),
           (''payment_method'', mock_field ''Credit Card'' 0.85)]
      | BUSINESS_CARD \<Rightarrow>
          [(''full_name'', mock_field ''John Smith'' 0.95),
           (''company'', mock_field ''Tech Solutions Inc'' 0.90),
           (''title'', mock_field ''Software Engineer'' 0.88),
           (''email'', mock_field ''john.smith@techsolutions.com'' 0.92),
           (''phone'', mock_field ''+1 (555) 123-4567'' 0.90)]
      | _ \<Rightarrow> [(''document_content'', mock_field ''Sample extracted content'' 0.75)])"

text \<open>The loop of \<open>_convert_to_extracted_fields\<close>.\<close>

fun convert_to_extracted_fields :: "(string \<times> jfield) list \<Rightarrow> fields \<Rightarrow> py_error + fields" where
  "convert_to_extracted_fields [] extracted_fields = Inr extracted_fields"
| "convert_to_extracted_fields ((field_name, JDict v jc original) # rest) extracted_fields =
     (case confidence_of jc of
        Inl e \<Rightarrow> Inl e
      | Inr c \<Rightarrow>
          (let v' = (case v of Some t \<Rightarrow> t | None \<Rightarrow> VStr [])
           in case new_extracted_field v' c v' of
                Inl e \<Rightarrow> Inl e
              | Inr field \<Rightarrow>
                  convert_to_extracted_fields rest
                    (AList.update field_name field extracted_fields)))"
| "convert_to_extracted_fields ((field_name, JOther t) # rest) extracted_fields =
     (case new_extracted_field (VStr t) 0.7 (VStr t) of
        Inl e \<Rightarrow> Inl e
      | Inr field \<Rightarrow>
          convert_to_extracted_fields rest (AList.update field_name field extracted_fields))"

text \<open>
  \<open>extract_fields\<close> catches every exception and then returns the empty dictionary; a
  response that parses to nothing, or to a false value, falls back to the mock extraction.
\<close>

definition extract_fields :: "gemini \<Rightarrow> file_data \<Rightarrow> DocumentType \<Rightarrow> fields" where
  "extract_fields g image_data document_type =
     (if use_real_api g
      then (if \<not> (decodable image_data \<and> preparable image_data) then []
            else (case generate_content g image_data (ExtractionPrompt document_type) of
                    None \<Rightarrow> []
                  | Some (Json result) \<Rightarrow>
                      (if result \<noteq> []
                       then (case convert_to_extracted_fields result [] of
                               Inl e \<Rightarrow> [] | Inr fs \<Rightarrow> fs)
                       else mock_extraction document_type)
                  | Some (JsonOther true) \<Rightarrow>
                      (if true then [] else mock_extraction document_type)
                  | Some (Text t) \<Rightarrow> mock_extraction document_type))
      else mock_extraction document_type)"

section \<open>The production session (production\_document\_service.py)\<close>

definition single_pass_extraction ::
  "gemini \<Rightarrow> file_data \<Rightarrow> DocumentType \<Rightarrow> string list \<Rightarrow> pass list \<times> (py_error + fields)" where
  "single_pass_extraction g image_data document_type custom_fields =
     (let fs = extract_fields g image_data document_type
      in if custom_fields \<noteq> []
         then (case extract_custom_fields g image_data custom_fields of
                 Inl e \<Rightarrow> ([GENERAL_PASS, CUSTOM_PASS], Inl e)
               | Inr custom_extracted \<Rightarrow>
                   ([GENERAL_PASS, CUSTOM_PASS], Inr (dict_update fs custom_extracted)))
         else ([GENERAL_PASS], Inr fs))"

text \<open>
  \<open>_enhance_image_production\<close> catches every exception and then returns the bytes it was
  given; otherwise it returns a JPEG encoding of the enhanced image.
\<close>

definition enhance_image_production :: "file_data \<Rightarrow> string \<Rightarrow> file_data" where
  "enhance_image_production image_data accuracy_mode =
     (if decodable image_data \<and> enhanceable image_data
      then image_data\<lparr>preparable := True, enhanced_for := Some accuracy_mode\<rparr>
      else image_data)"

record production_result =
  status :: ProcessingStatus
  document_type :: DocumentType
  extracted_data :: fields
  overall_confidence :: real
  passes :: "pass list"

text \<open>
  \<open>process_document_production\<close>. The service is built with \<open>multi_pass_extraction\<close>,
  \<open>validation_enabled\<close> and \<open>spatial_analysis\<close> set, and nothing clears them.
\<close>

definition process_document_production ::
  "gemini \<Rightarrow> (string \<Rightarrow> int) \<Rightarrow> file_data \<Rightarrow> DocumentType option \<Rightarrow> bool \<Rightarrow> string list \<Rightarrow> string
     \<Rightarrow> production_result" where
  "process_document_production g hash file doc_type enhance_image custom_fields accuracy_mode =
     (let file' = (if enhance_image then enhance_image_production file accuracy_mode else file);
          doc_type' = (case doc_type of Some t \<Rightarrow> t | None \<Rightarrow> detected_type g file');
          (log, extraction) =
            (if accuracy_mode = ''high''
             then multi_pass_extraction g file' doc_type' custom_fields
             else single_pass_extraction g file' doc_type' custom_fields)
      in case extraction of
           Inl e \<Rightarrow>
             \<lparr>status = FAILED, document_type = doc_type', extracted_data = [],
              overall_confidence = 0, passes = log\<rparr>
         | Inr data \<Rightarrow>
             (let validated = validate_and_correct_fields data doc_type';
                  located = add_spatial_coordinates hash validated;
                  calibrated = calibrate_confidence located doc_type' accuracy_mode
              in \<lparr>status = COMPLETED, document_type = doc_type', extracted_data = calibrated,
                  overall_confidence = calculate_weighted_confidence calibrated,
                  passes = log @ [VALIDATION_STEP]\<rparr>))"

section \<open>Field validation of \<open>GeminiService\<close> (gemini\_service.py)\<close>

definition bonus :: "ExtractedField \<Rightarrow> ExtractedField" where
  "bonus field = field\<lparr>confidence := min (confidence field + 0.05) 1\<rparr>"

definition penalty :: "string \<Rightarrow> real \<Rightarrow> ExtractedField \<Rightarrow> ExtractedField" where
  "penalty message d field =
     field\<lparr>validation_errors := validation_errors field @ [message],
           confidence := max (confidence field - d) 0\<rparr>"

definition date_formats :: "string list" where
  "date_formats = [''%Y-%m-%d'', ''%m/%d/%Y'', ''%d/%m/%Y'', ''%B %d, %Y'']"

text \<open>
  \<open>strptime s fmt\<close> tells whether \<open>datetime.strptime(s, fmt)\<close> returns; it is a parameter
  of the model.
\<close>

definition validate_date_field ::
  "(string \<Rightarrow> string \<Rightarrow> bool) \<Rightarrow> ExtractedField \<Rightarrow> ExtractedField" where
  "validate_date_field strptime field =
     (if \<not> truthy (value field) then field
      else if list_ex (\<lambda>fmt. strptime (py_str (value field)) fmt) date_formats then bonus field
      else penalty ''Invalid date format'' 0.1 field)"

text \<open>
  \<open>_validate_amount_field\<close>: the commas, dollar and euro signs are removed, and
  \<open>re.search(r'[\d.]+', ...)\<close> takes the first run of digits and dots, the
  \<open>amount_match\<close> of the value (empty when there is no match).
\<close>

definition digit_or_dot :: "char \<Rightarrow> bool" where
  "digit_or_dot c = (is_digit c \<or> c = CHR ''.'')"

definition amount_match :: "string \<Rightarrow> string" where
  "amount_match v =
     takeWhile digit_or_dot
       (dropWhile (\<lambda>c. \<not> digit_or_dot c)
          (replace [CHR 0xE2, CHR 0x82, CHR 0xAC] [] (replace ''$'' [] (replace '','' [] v))))"

definition validate_amount_field :: "ExtractedField \<Rightarrow> ExtractedField" where
  "validate_amount_field field =
     (if \<not> truthy (value field) then field
      else if amount_match (py_str (value field)) \<noteq> []
      then (case py_float (amount_match (py_str (value field))) of
              Some numeric_value \<Rightarrow>
                (if fgreater_eq numeric_value 0 then bonus field
                 else field\<lparr>validation_errors :=
                        validation_errors field @ [''Negative amount detected'']\<rparr>)
            | None \<Rightarrow>
                penalty
                  (''Amount validation error: could not convert string to float: ''
                     @ [CHR 0x27] @ amount_match (py_str (value field)) @ [CHR 0x27])
                  0.1 field)
      else penalty ''No numeric value found'' 0.1 field)"

definition validate_email_field :: "ExtractedField \<Rightarrow> ExtractedField" where
  "validate_email_field field =
     (if \<not> truthy (value field) then field
      else if re_match_anchored email_pattern (py_str (value field)) then bonus field
      else penalty ''Invalid email format'' 0.1 field)"

definition validate_phone_field :: "ExtractedField \<Rightarrow> ExtractedField" where
  "validate_phone_field field =
     (if \<not> truthy (value field) then field
      else if length (filter is_digit (py_str (value field))) \<ge> 10 then bonus field
      else penalty ''Phone number too short'' 0.05 field)"

text \<open>One iteration of the loop of \<open>validate_extraction\<close>, which updates the field in place.\<close>

definition validate_extraction_field ::
  "(string \<Rightarrow> string \<Rightarrow> bool) \<Rightarrow> string \<Rightarrow> ExtractedField \<Rightarrow> ExtractedField" where
  "validate_extraction_field strptime field_name field =
     (let field' =
            (if str_in ''date'' (lower field_name) then validate_date_field strptime field
             else if any_term_in [''amount'', ''total'', ''price''] field_name
               then validate_amount_field field
             else if str_in ''email'' (lower field_name) then validate_email_field field
             else if str_in ''phone'' (lower field_name) then validate_phone_field field
             else field)
      in field'\<lparr>confidence_level := get_confidence_level (confidence field')\<rparr>)"

definition validate_extraction ::
  "(string \<Rightarrow> string \<Rightarrow> bool) \<Rightarrow> fields \<Rightarrow> DocumentType \<Rightarrow> fields" where
  "validate_extraction strptime extracted_fields doc_type =
     map (\<lambda>(field_name, field). (field_name, validate_extraction_field strptime field_name field))
       extracted_fields"

section \<open>Spatial grounding (universal\_extraction\_service.py)\<close>

text \<open>
  The part of the OCR result that the resolver reads: the text blocks (\<open>[]\<close> when the key
  is missing) and the image dimensions (\<open>None\<close> when the key is missing).
\<close>

record ocr_results =
  text_blocks :: "TextBlock list"
  image_dimensions :: "(int \<times> int) option"

definition dimensions_of :: "ocr_results \<Rightarrow> int \<times> int" where
  "dimensions_of ocr = (case image_dimensions ocr of Some d \<Rightarrow> d | None \<Rightarrow> (1, 1))"

text \<open>The \<open>FieldLocation\<close> every strategy builds from the block it has found.\<close>

definition block_location :: "TextBlock \<Rightarrow> int \<times> int \<Rightarrow> py_error + FieldLocation" where
  "block_location block dims =
     (let bbox = bounding_box block
      in if fst dims = 0 \<or> snd dims = 0 then Inl ZeroDivisionError
         else Inr \<lparr>x = real_of_int (x1 bbox) / real_of_int (fst dims),
                   y = real_of_int (y1 bbox) / real_of_int (snd dims),
                   width = real_of_int (x2 bbox - x1 bbox) / real_of_int (fst dims),
                   height = real_of_int (y2 bbox - y1 bbox) / real_of_int (snd dims)\<rparr>)"

definition located :: "TextBlock option \<Rightarrow> int \<times> int \<Rightarrow> py_error + FieldLocation option" where
  "located hit dims =
     (case hit of
        None \<Rightarrow> Inr None
      | Some block \<Rightarrow>
          (case block_location block dims of Inl e \<Rightarrow> Inl e | Inr loc \<Rightarrow> Inr (Some loc)))"

definition block_text_lower :: "TextBlock \<Rightarrow> string" where
  "block_text_lower block = lower (strip (text block))"

definition find_exact_match ::
  "string \<Rightarrow> TextBlock list \<Rightarrow> int \<times> int \<Rightarrow> py_error + FieldLocation option" where
  "find_exact_match v blocks dims =
     located (find (\<lambda>block. lower v = block_text_lower block) blocks) dims"

text \<open>
  \<open>ratio a b\<close> is \<open>difflib.SequenceMatcher(None, a, b).ratio()\<close>, a parameter of the model.
\<close>

fun best_fuzzy ::
  "(string \<Rightarrow> string \<Rightarrow> real) \<Rightarrow> string \<Rightarrow> TextBlock list \<Rightarrow> TextBlock option \<times> real
     \<Rightarrow> TextBlock option" where
  "best_fuzzy ratio value_lower [] (best_match, best_ratio) = best_match"
| "best_fuzzy ratio value_lower (block # rest) (best_match, best_ratio) =
     (let r = ratio value_lower (block_text_lower block)
      in if r > 0.8 \<and> r > best_ratio then best_fuzzy ratio value_lower rest (Some block, r)
         else best_fuzzy ratio value_lower rest (best_match, best_ratio))"

definition find_fuzzy_match ::
  "(string \<Rightarrow> string \<Rightarrow> real) \<Rightarrow> string \<Rightarrow> TextBlock list \<Rightarrow> int \<times> int
     \<Rightarrow> py_error + FieldLocation option" where
  "find_fuzzy_match ratio v blocks dims =
     located (best_fuzzy ratio (lower v) blocks (None, 0)) dims"

definition find_partial_match ::
  "string \<Rightarrow> TextBlock list \<Rightarrow> int \<times> int \<Rightarrow> py_error + FieldLocation option" where
  "find_partial_match v blocks dims =
     (let value_lower = lower v;
          by_words =
            (if length v > 20
             then (let ws = filter (\<lambda>w. length w > 3) (split value_lower)
                   in find (\<lambda>block.
                              length (filter (\<lambda>w. str_in w (block_text_lower block)) ws)
                                \<ge> min 2 (length ws div 2))
                        blocks)
             else None)
      in case by_words of
           Some block \<Rightarrow> located (Some block) dims
         | None \<Rightarrow>
             located
               (find (\<lambda>block.
                        (length v > 5 \<and> str_in value_lower (block_text_lower block))
                        \<or> (length (block_text_lower block) > 5
                            \<and> str_in (block_text_lower block) value_lower))
                  blocks)
               dims)"

text \<open>
  The patterns \<open>amount\<close>, \<open>date\<close>, \<open>phone\<close>, \<open>id_number\<close> and \<open>percentage\<close>, in the order
  of the dictionary; the search ignores case.
\<close>

definition shape_patterns :: "rexp list" where
  "shape_patterns =
     [amount_pattern,
      RSeq [RRep 1 1 (Atom is_digit), date_sep, RRep 1 1 (Atom is_digit), date_sep,
            RRep 2 2 (Atom is_digit)],
      RPlus (Atom (\<lambda>c. is_digit c \<or> is_space c \<or> c \<in> set ''-+()'')),
      RPlus (Atom is_alnum),
      RSeq [RPlus (Atom is_digit), RChr CHR ''%'']]"

text \<open>\<open>re.sub(r'[^\w\d\.\-/]', '', s)\<close>\<close>

definition strip_symbols :: "string \<Rightarrow> string" where
  "strip_symbols s = filter (\<lambda>c. is_alnum c \<or> c = CHR ''_'' \<or> c \<in> set ''.-/'') s"

definition find_pattern_match ::
  "string \<Rightarrow> TextBlock list \<Rightarrow> int \<times> int \<Rightarrow> py_error + FieldLocation option" where
  "find_pattern_match v blocks dims =
     (let value_clean = strip_symbols v;
          hit = find (\<lambda>(pattern, block).
                        re_search pattern (strip (text block))
                        \<and> (str_in value_clean (strip_symbols (strip (text block)))
                            \<or> str_in (strip_symbols (strip (text block))) value_clean))
                  (List.product (filter (\<lambda>pattern. re_search pattern v) shape_patterns) blocks)
      in located (map_option snd hit) dims)"

definition label_keywords :: "string list" where
  "label_keywords = [''total'', ''amount'', ''date'', ''number'', ''name'', ''address'']"

definition find_contextual_match ::
  "string \<Rightarrow> TextBlock list \<Rightarrow> int \<times> int \<Rightarrow> py_error + FieldLocation option" where
  "find_contextual_match v blocks dims =
     (let value_lower = lower v;
          sorted_blocks =
            sort_key (\<lambda>b. (y1 (bounding_box b), x1 (bounding_box b))) blocks;
          hits =
            concat
              (map (\<lambda>(i, block).
                      if list_ex (\<lambda>keyword. str_in keyword (block_text_lower block))
                           label_keywords
                      then filter (\<lambda>nearby_block.
                                     str_in value_lower (block_text_lower nearby_block)
                                     \<or> str_in (block_text_lower nearby_block) value_lower)
                             (take (min (i + 5) (length sorted_blocks) - (i + 1))
                                (drop (i + 1) sorted_blocks))
                      else [])
                 (enumerate 0 sorted_blocks))
      in located (case hits of [] \<Rightarrow> None | nearby_block # rest \<Rightarrow> Some nearby_block) dims)"

definition validate_location :: "FieldLocation \<Rightarrow> string \<Rightarrow> string \<Rightarrow> bool" where
  "validate_location loc field_name field_value =
     (if \<not> (0 \<le> x loc \<and> x loc \<le> 1 \<and> 0 \<le> y loc \<and> y loc \<le> 1) then False
      else if width loc \<noteq> 0 \<and> height loc \<noteq> 0
        then (if width loc > 0.8 \<or> height loc > 0.5 then False
              else if width loc < 0.01 \<or> height loc < 0.005 then False
              else True)
      else True)"

definition extract_field_keywords :: "string \<Rightarrow> string list" where
  "extract_field_keywords field_name =
     concat
       (map (\<lambda>part.
               part #
               (if lower part \<in> set [''amt'', ''amount''] then [''total'', ''sum'', ''value'']
                else if lower part \<in> set [''num'', ''number'', ''no'']
                  then [''id'', ''reference'', ''ref'']
                else if lower part \<in> set [''addr'', ''address''] then [''location'', ''place'']
                else []))
          (split (replace ''_'' '' '' field_name)))"

definition center_x :: "TextBlock \<Rightarrow> real" where
  "center_x b = real_of_int (x1 (bounding_box b) + x2 (bounding_box b)) / 2"

definition center_y :: "TextBlock \<Rightarrow> real" where
  "center_y b = real_of_int (y1 (bounding_box b) + y2 (bounding_box b)) / 2"

definition squared_distance :: "TextBlock \<Rightarrow> TextBlock \<Rightarrow> real" where
  "squared_distance b r = (center_x b - center_x r)\<^sup>2 + (center_y b - center_y r)\<^sup>2"

text \<open>
  The source compares the distance, a square root, with \<open>max_distance\<close>; the model compares
  the squares, \<open>max_distance\<close> being non-negative.
\<close>

definition find_spatially_close_blocks ::
  "TextBlock \<Rightarrow> TextBlock list \<Rightarrow> int \<Rightarrow> TextBlock list" where
  "find_spatially_close_blocks reference_block blocks max_distance =
     sort_key (\<lambda>b. squared_distance b reference_block)
       (filter (\<lambda>block. block \<noteq> reference_block
                         \<and> squared_distance block reference_block
                             \<le> (real_of_int max_distance)\<^sup>2)
          blocks)"

definition is_value_match :: "(string \<Rightarrow> string \<Rightarrow> real) \<Rightarrow> string \<Rightarrow> string \<Rightarrow> bool" where
  "is_value_match ratio expected_value block_text =
     (let expected_clean = lower (strip expected_value);
          block_clean = lower (strip block_text)
      in if expected_clean = block_clean then True
         else if length expected_clean > 10 \<and> str_in expected_clean block_clean then True
         else ratio expected_clean block_clean > 0.85)"

definition find_improved_location ::
  "(string \<Rightarrow> string \<Rightarrow> real) \<Rightarrow> string \<Rightarrow> string \<Rightarrow> TextBlock list \<Rightarrow> int \<times> int
     \<Rightarrow> py_error + FieldLocation option" where
  "find_improved_location ratio field_name field_value blocks dims =
     (let hits =
            concat
              (map (\<lambda>keyword.
                      concat
                        (map (\<lambda>block.
                                if str_in (lower keyword) (lower (text block))
                                then filter (\<lambda>nearby_block.
                                               is_value_match ratio field_value
                                                 (text nearby_block))
                                       (find_spatially_close_blocks block blocks 100)
                                else [])
                           blocks))
                 (extract_field_keywords field_name))
      in located (case hits of [] \<Rightarrow> None | nearby_block # rest \<Rightarrow> Some nearby_block) dims)"

definition refine_bounding_box ::
  "FieldLocation \<Rightarrow> string \<Rightarrow> TextBlock list \<Rightarrow> int \<times> int \<Rightarrow> FieldLocation" where
  "refine_bounding_box loc field_value blocks dims =
     (if width loc \<noteq> 0 \<and> height loc \<noteq> 0
      then (let min_width = max 0.02 (real (length field_value) * 0.008);
                min_height = 0.015;
                adjusted_width = max (width loc) min_width;
                adjusted_height = max (height loc) min_height;
                max_x = 1 - adjusted_width;
                max_y = 1 - adjusted_height;
                adjusted_x = min (x loc) max_x;
                adjusted_y = min (y loc) max_y
            in \<lparr>x = adjusted_x, y = adjusted_y, width = adjusted_width,
                height = adjusted_height\<rparr>)
      else loc)"

text \<open>An exception inside \<open>_improve_location_accuracy\<close> returns the location unchanged.\<close>

definition improve_location_accuracy ::
  "(string \<Rightarrow> string \<Rightarrow> real) \<Rightarrow> string \<Rightarrow> string \<Rightarrow> FieldLocation \<Rightarrow> ocr_results
     \<Rightarrow> FieldLocation" where
  "improve_location_accuracy ratio field_name field_value loc ocr =
     (let blocks = text_blocks ocr; dims = dimensions_of ocr
      in if \<not> validate_location loc field_name field_value
         then (case find_improved_location ratio field_name field_value blocks dims of
                 Inl e \<Rightarrow> loc
               | Inr (Some improved_location) \<Rightarrow> improved_location
               | Inr None \<Rightarrow> refine_bounding_box loc field_value blocks dims)
         else refine_bounding_box loc field_value blocks dims)"

text \<open>
  \<open>_find_field_location\<close>: each strategy that returns a location ends the search with the
  result of \<open>_improve_location_accuracy\<close>, called with the empty field name; an exception
  anywhere gives \<open>None\<close>.
\<close>

definition find_field_location ::
  "(string \<Rightarrow> string \<Rightarrow> real) \<Rightarrow> string \<Rightarrow> ocr_results \<Rightarrow> FieldLocation option" where
  "find_field_location ratio v ocr =
     (let blocks = text_blocks ocr; dims = dimensions_of ocr
      in if blocks = [] \<or> v = [] then None
         else (let value_clean = strip v
               in case find_exact_match value_clean blocks dims of
                    Inl e \<Rightarrow> None
                  | Inr (Some loc) \<Rightarrow> Some (improve_location_accuracy ratio [] value_clean loc ocr)
                  | Inr None \<Rightarrow>
               (case find_fuzzy_match ratio value_clean blocks dims of
                    Inl e \<Rightarrow> None
                  | Inr (Some loc) \<Rightarrow> Some (improve_location_accuracy ratio [] value_clean loc ocr)
                  | Inr None \<Rightarrow>
               (case find_partial_match value_clean blocks dims of
                    Inl e \<Rightarrow> None
                  | Inr (Some loc) \<Rightarrow> Some (improve_location_accuracy ratio [] value_clean loc ocr)
                  | Inr None \<Rightarrow>
               (case find_pattern_match value_clean blocks dims of
                    Inl e \<Rightarrow> None
                  | Inr (Some loc) \<Rightarrow> Some (improve_location_accuracy ratio [] value_clean loc ocr)
                  | Inr None \<Rightarrow>
               (case find_contextual_match value_clean blocks dims of
                    Inl e \<Rightarrow> None
                  | Inr (Some loc) \<Rightarrow> Some (improve_location_accuracy ratio [] value_clean loc ocr)
                  | Inr None \<Rightarrow> None))))))"

section \<open>Cross-field consistency (enhanced\_gemini\_service.py)\<close>

text \<open>\<open>re.sub(r'[^\d.-]', '', s)\<close>\<close>

definition keep_numeric :: "string \<Rightarrow> string" where
  "keep_numeric s = filter (\<lambda>c. is_digit c \<or> c = CHR ''.'' \<or> c = CHR ''-'') s"

text \<open>
  \<open>_extract_numeric_value\<close>: \<open>not field.value\<close> holds for \<open>None\<close>, the empty string, a
  numeric zero and every other false value.
\<close>

definition extract_numeric_value :: "ExtractedField option \<Rightarrow> pyfloat option" where
  "extract_numeric_value field =
     (case field of
        None \<Rightarrow> None
      | Some f \<Rightarrow> if \<not> truthy (value f) then None
                  else py_float (keep_numeric (py_str (value f))))"

text \<open>
  \<open>_validate_invoice_math\<close>. The amounts are doubles; \<open>x or 0.0\<close> is \<open>x\<close> for every
  float \<open>x\<close>. \<open>float_str\<close> is the text that an f-string gives a float, a parameter of the
  model. The confidence is a real number here as everywhere in the model.
\<close>

definition mismatch_message :: "(pyfloat \<Rightarrow> string) \<Rightarrow> pyfloat \<Rightarrow> pyfloat \<Rightarrow> string" where
  "mismatch_message float_str total_val calculated_total =
     ''Total ('' @ float_str total_val @ '') doesn'' @ [CHR 0x27] @ ''t match subtotal + tax (''
       @ float_str calculated_total @ '')''"

definition validate_invoice_math :: "(pyfloat \<Rightarrow> string) \<Rightarrow> fields \<Rightarrow> fields" where
  "validate_invoice_math float_str fs =
     (case (extract_numeric_value (map_of fs ''subtotal''),
            extract_numeric_value (map_of fs ''tax_amount''),
            extract_numeric_value (map_of fs ''total_amount'')) of
        (Some subtotal, Some tax_amount, Some total_amount) \<Rightarrow>
          (let calculated_total = fadd subtotal tax_amount;
               total_val = total_amount
           in if fgreater (fabs (fsub calculated_total total_val)) 0.01
              then (case map_of fs ''total_amount'' of
                      Some f \<Rightarrow>
                        AList.update ''total_amount''
                          (f\<lparr>validation_errors :=
                               validation_errors f
                                 @ [mismatch_message float_str total_val calculated_total],
                             confidence := confidence f * 0.8\<rparr>)
                          fs
                    | None \<Rightarrow> fs)
              else fs)
      | _ \<Rightarrow> fs)"

section \<open>The enterprise pipelines (enterprise\_document\_service.py)\<close>

definition process_with_standard_pipeline :: "gemini \<Rightarrow> file_data \<Rightarrow> DocumentType \<Rightarrow> fields" where
  "process_with_standard_pipeline g image_data doc_type = extract_fields g image_data doc_type"

text \<open>
  A Python call binds its arguments before the body runs: more positional arguments than
  parameters, or a keyword that names no remaining parameter, raise \<open>TypeError\<close>. The
  decorator \<open>measure_time\<close> passes the arguments on unchanged and re-raises.
\<close>

definition bind_arguments :: "string list \<Rightarrow> nat \<Rightarrow> string list \<Rightarrow> py_error + unit" where
  "bind_arguments parameters positional keywords =
     (if positional > length parameters then Inl TypeError
      else if list_ex (\<lambda>k. k \<notin> set (drop positional parameters)) keywords then Inl TypeError
      else Inr ())"

text \<open>The parameters of \<open>EnhancedGeminiService.process_document_enhanced\<close> after \<open>self\<close>.\<close>

definition process_document_enhanced_parameters :: "string list" where
  "process_document_enhanced_parameters = [''image_data'', ''document_type'', ''ocr_results'']"

definition empty_ocr :: ocr_results where
  "empty_ocr = \<lparr>text_blocks = [], image_dimensions = None\<rparr>"

text \<open>
  \<open>_process_with_enhanced_pipeline\<close>. \<open>enhanced_ocr\<close> and \<open>enhanced_gemini\<close> are the two
  optional services: \<open>enhanced_ocr\<close> is the result of \<open>extract_text_with_layout\<close>, which
  catches every exception, and \<open>enhanced_gemini\<close> is the body of
  \<open>process_document_enhanced\<close>, giving the \<open>extracted_data\<close> of its result.
\<close>

definition process_with_enhanced_pipeline ::
  "gemini \<Rightarrow> (file_data \<Rightarrow> ocr_results) option
     \<Rightarrow> (file_data \<Rightarrow> DocumentType \<Rightarrow> ocr_results \<Rightarrow> py_error + fields) option
     \<Rightarrow> file_data \<Rightarrow> DocumentType \<Rightarrow> string \<Rightarrow> fields \<times> ocr_results" where
  "process_with_enhanced_pipeline g enhanced_ocr enhanced_gemini image_data doc_type quality_mode =
     (let ocr = (case enhanced_ocr of
                   Some extract_text_with_layout \<Rightarrow> extract_text_with_layout image_data
                 | None \<Rightarrow> empty_ocr)
      in case enhanced_gemini of
           Some process_document_enhanced \<Rightarrow>
             (case bind_arguments process_document_enhanced_parameters 3 [''accuracy_mode''] of
                Inl e \<Rightarrow> (process_with_standard_pipeline g image_data doc_type, empty_ocr)
              | Inr u \<Rightarrow>
                  (case process_document_enhanced image_data doc_type ocr of
                     Inl e \<Rightarrow> (process_with_standard_pipeline g image_data doc_type, empty_ocr)
                   | Inr data \<Rightarrow> (data, ocr)))
         | None \<Rightarrow> (process_with_standard_pipeline g image_data doc_type, ocr))"

section \<open>Reference formulations\<close>

text \<open>
  The calibration as the specification words it: the mode factor, then the boost for a name
  that matches one of the critical patterns when the confidence after the mode factor
  exceeds 0.8, then the validation penalty, then the clamp.
\<close>

definition mode_factor :: "string \<Rightarrow> real" where
  "mode_factor accuracy_mode =
     (if accuracy_mode = ''high'' then 0.95 else if accuracy_mode = ''fast'' then 0.90 else 1)"

definition calibration_as_specified :: "string \<Rightarrow> string \<Rightarrow> ExtractedField \<Rightarrow> real" where
  "calibration_as_specified accuracy_mode field_name field =
     (let s1 = confidence field * mode_factor accuracy_mode;
          s2 = (if any_term_in critical_field_patterns field_name \<and> s1 > 0.8
                then min 0.98 (s1 * 1.05) else s1);
          s3 = (if validation_errors field \<noteq> [] then s2 * 0.7 else s2)
      in max 0 (min 1 s3))"

text \<open>
  The calibration as amended: the boost is for the three names \<open>total_amount\<close>,
  \<open>invoice_number\<close> and \<open>vendor_name\<close>, when the confidence before the mode factor exceeds
  0.8.
\<close>

definition calibration_as_amended :: "string \<Rightarrow> string \<Rightarrow> ExtractedField \<Rightarrow> real" where
  "calibration_as_amended accuracy_mode field_name field =
     (let s1 = confidence field * mode_factor accuracy_mode;
          s2 = (if field_name \<in> {''total_amount'', ''invoice_number'', ''vendor_name''}
                   \<and> confidence field > 0.8
                then min 0.98 (s1 * 1.05) else s1);
          s3 = (if validation_errors field \<noteq> [] then s2 * 0.7 else s2)
      in max 0 (min 1 s3))"

text \<open>The plausibility bounds of the specification.\<close>

definition plausible :: "FieldLocation \<Rightarrow> bool" where
  "plausible loc =
     (0 \<le> x loc \<and> x loc \<le> 1 \<and> 0 \<le> y loc \<and> y loc \<le> 1
      \<and> width loc \<le> 0.8 \<and> height loc \<le> 0.5 \<and> width loc \<ge> 0.01 \<and> height loc \<ge> 0.005)"

text \<open>The results of the five strategies, in the order of the cascade.\<close>

definition strategy_results ::
  "(string \<Rightarrow> string \<Rightarrow> real) \<Rightarrow> string \<Rightarrow> ocr_results \<Rightarrow> (py_error + FieldLocation option) list" where
  "strategy_results ratio v ocr =
     (let blocks = text_blocks ocr; dims = dimensions_of ocr; value_clean = strip v
      in [find_exact_match value_clean blocks dims,
          find_fuzzy_match ratio value_clean blocks dims,
          find_partial_match value_clean blocks dims,
          find_pattern_match value_clean blocks dims,
          find_contextual_match value_clean blocks dims])"

text \<open>
  The cascade as the specification words it: a hit that is not plausible is rejected and
  the next strategy is tried; the first plausible hit is widened and returned.
\<close>

fun first_plausible_hit :: "(py_error + FieldLocation option) list \<Rightarrow> FieldLocation option" where
  "first_plausible_hit [] = None"
| "first_plausible_hit (Inr (Some loc) # rest) =
     (if plausible loc then Some loc else first_plausible_hit rest)"
| "first_plausible_hit (r # rest) = first_plausible_hit rest"

definition cascade_as_specified ::
  "(string \<Rightarrow> string \<Rightarrow> real) \<Rightarrow> string \<Rightarrow> ocr_results \<Rightarrow> FieldLocation option" where
  "cascade_as_specified ratio v ocr =
     (if text_blocks ocr = [] \<or> v = [] then None
      else map_option
             (\<lambda>loc. refine_bounding_box loc (strip v) (text_blocks ocr) (dimensions_of ocr))
             (first_plausible_hit (strategy_results ratio v ocr)))"

text \<open>
  The cascade as amended: the first strategy that returns a location ends the search,
  plausible or not, and an exception ends it with no location.
\<close>

fun first_hit :: "(py_error + FieldLocation option) list \<Rightarrow> FieldLocation option" where
  "first_hit [] = None"
| "first_hit (Inl e # rest) = None"
| "first_hit (Inr (Some loc) # rest) = Some loc"
| "first_hit (Inr None # rest) = first_hit rest"

text \<open>
  The number that a field of the set denotes: absent when the field is absent or when what
  is left of its value after removing every character outside \<open>[-0-9.]\<close> does not parse.
\<close>

definition numeric_after_stripping :: "fields \<Rightarrow> string \<Rightarrow> real option" where
  "numeric_after_stripping fs field_name =
     (case map_of fs field_name of
        None \<Rightarrow> None
      | Some f \<Rightarrow> decimal_value (keep_numeric (py_str (value f))))"

text \<open>
  The double that the consistency check reads from a field of the set: absent when the
  field is absent, when its value is false (\<open>None\<close>, empty, a numeric zero), or when what
  is left of the value after removing every character outside \<open>[-0-9.]\<close> does not parse.
\<close>

definition double_of_true_value :: "fields \<Rightarrow> string \<Rightarrow> pyfloat option" where
  "double_of_true_value fs field_name =
     (case map_of fs field_name of
        None \<Rightarrow> None
      | Some f \<Rightarrow>
          if truthy (value f)
          then map_option to_double (decimal_value (keep_numeric (py_str (value f))))
          else None)"

text \<open>
  The fields to which \<open>validate_extraction\<close> applies a rule: the value is true (not
  \<open>None\<close>, empty, zero or another false value) and the name falls in one of the four
  categories, date; amount, total or price; email; phone.
\<close>

definition rule_applies :: "string \<Rightarrow> ExtractedField \<Rightarrow> bool" where
  "rule_applies field_name field =
     (truthy (value field)
      \<and> (str_in ''date'' (lower field_name)
           \<or> any_term_in [''amount'', ''total'', ''price''] field_name
           \<or> str_in ''email'' (lower field_name)
           \<or> str_in ''phone'' (lower field_name)))"

section \<open>Example documents\<close>

text \<open>
  A page of 1000 by 1200 pixels whose only text block is the title \<open>INVOICE\<close>, set across
  the page from (50, 40) to (950, 90).
\<close>

definition title_block :: TextBlock where
  "title_block =
     \<lparr>text = ''INVOICE'', block_confidence = 0.99,
      bounding_box = \<lparr>x1 = 50, y1 = 40, x2 = 950, y2 = 90\<rparr>, font_size = 24,
      line_number = 0\<rparr>"

text \<open>
  A page of 1000 by 1200 pixels with one line of 130 characters, set from (100, 200) to
  (900, 220), and the value that this line holds.
\<close>

definition long_value :: string where
  "long_value = replicate 130 (CHR ''A'')"

definition long_block :: TextBlock where
  "long_block =
     \<lparr>text = long_value, block_confidence = 0.95,
      bounding_box = \<lparr>x1 = 100, y1 = 200, x2 = 900, y2 = 220\<rparr>, font_size = 12,
      line_number = 3\<rparr>"

section \<open>Properties\<close>

subsection \<open>Helper lemmas\<close>

lemma weighted_loop_sums:
  "weighted_loop d (tw, ws) =
     (tw + sum_list (map (\<lambda>(n, f). field_weight n) d),
      ws + sum_list (map (\<lambda>(n, f). confidence f * field_weight n) d))"
  by (induction d arbitrary: tw ws) (auto simp: algebra_simps)

lemma field_weight_ge_1: "field_weight n \<ge> 1"
  by (simp add: field_weight_def)

lemma total_weight_pos:
  "d \<noteq> [] \<Longrightarrow> 0 < sum_list (map (\<lambda>(n, f). field_weight n) d)"
proof (induction d)
  case Nil
  then show ?case by simp
next
  case (Cons p d)
  obtain n f where p: "p = (n, f)" by (cases p)
  have "0 \<le> sum_list (map (\<lambda>(n, f). field_weight n) d)"
    by (rule sum_list_nonneg) (auto intro: order_trans [OF _ field_weight_ge_1])
  moreover have "1 \<le> field_weight n" by (rule field_weight_ge_1)
  ultimately show ?case using p by simp
qed

lemma map_of_keyed_map:
  "map_of (map (\<lambda>(k, f). (k, g k f)) d) n = map_option (g n) (map_of d n)"
  by (induction d) auto

lemma keys_keyed_map: "map fst (map (\<lambda>(k, f). (k, g k f)) d) = map fst d"
  by (induction d) auto

lemma calibrated_confidence_amended:
  "calibrated_confidence mode n f = calibration_as_amended mode n f"
proof -
  consider (h) "mode = ''high''" | (fa) "mode \<noteq> ''high''" "mode = ''fast''"
    | (o) "mode \<noteq> ''high''" "mode \<noteq> ''fast''" by blast
  then show ?thesis
  proof cases
    case h
    then show ?thesis
      by (cases "validation_errors f = []"; cases "confidence f > 0.8";
          cases "n \<in> {''total_amount'', ''invoice_number'', ''vendor_name''}")
         (simp_all add: calibrated_confidence_def calibration_as_amended_def mode_factor_def Let_def)
  next
    case fa
    then show ?thesis
      by (cases "validation_errors f = []"; cases "confidence f > 0.8";
          cases "n \<in> {''total_amount'', ''invoice_number'', ''vendor_name''}")
         (simp_all add: calibrated_confidence_def calibration_as_amended_def mode_factor_def Let_def)
  next
    case o
    then show ?thesis
      by (cases "validation_errors f = []"; cases "confidence f > 0.8";
          cases "n \<in> {''total_amount'', ''invoice_number'', ''vendor_name''}")
         (simp_all add: calibrated_confidence_def calibration_as_amended_def mode_factor_def Let_def)
  qed
qed

lemma map_of_fold_update:
  "distinct (map fst e) \<Longrightarrow>
   map_of (fold (\<lambda>(k, v). AList.update k v) e d) k =
     (case map_of e k of Some f \<Rightarrow> Some f | None \<Rightarrow> map_of d k)"
proof (induction e arbitrary: d)
  case Nil
  then show ?case by simp
next
  case (Cons p e)
  obtain a b where p: "p = (a, b)" by (cases p)
  from Cons.prems have d: "distinct (map fst e)" and a: "a \<notin> fst ` set e"
    by (simp_all add: p)
  from a have none: "map_of e a = None"
    by (simp add: map_of_eq_None_iff)
  show ?case
    using Cons.IH [OF d, of "AList.update a b d"] none
    by (simp add: p update_conv' split: option.splits)
qed

lemma keys_fold_update:
  "set (map fst (fold (\<lambda>(k, v). AList.update k v) e d)) = set (map fst d) \<union> set (map fst e)"
proof (induction e arbitrary: d)
  case Nil
  then show ?case by simp
next
  case (Cons p e)
  obtain a b where p: "p = (a, b)" by (cases p)
  show ?case
    using Cons.IH [of "AList.update a b d"]
    by (auto simp: p dom_update)
qed

lemma distinct_fold_update:
  "distinct (map fst d) \<Longrightarrow> distinct (map fst (fold (\<lambda>(k, v). AList.update k v) e d))"
  by (induction e arbitrary: d) (auto simp: distinct_update)

lemma parse_items_distinct:
  "distinct (map fst acc) \<Longrightarrow> parse_items items acc = Inr fs \<Longrightarrow> distinct (map fst fs)"
  by (induction items acc rule: parse_items.induct)
     (auto simp: distinct_update split: sum.splits)

lemma parse_enhanced_response_distinct: "distinct (map fst (parse_enhanced_response r))"
  by (cases r) (auto simp: parse_enhanced_response_def dest: parse_items_distinct [rotated]
      split: sum.splits)

lemma map_of_combine_fields:
  "map_of (combine_fields G (parse_enhanced_response r)) k =
     (case map_of (parse_enhanced_response r) k of
        Some f \<Rightarrow> Some f
      | None \<Rightarrow> map_of G k)"
  unfolding combine_fields_def dict_update_def
  using map_of_fold_update [OF parse_enhanced_response_distinct, of r G k]
  by simp

lemma pow2_powi: "pow2 k = 2 powi k"
  by (simp add: pow2_def power_int_def field_simps)

lemma pow2_pos: "0 < pow2 k"
  by (simp add: pow2_powi)

lemma pow2_less: "pow2 i < pow2 j \<Longrightarrow> i < j"
proof (rule ccontr)
  assume a: "pow2 i < pow2 j" and "\<not> i < j"
  then have "j \<le> i" by simp
  then have "pow2 j \<le> pow2 i"
    unfolding pow2_powi by (rule power_int_increasing) simp
  with a show False by simp
qed

lemma pow2_succ: "pow2 (k + 1) = 2 * pow2 k"
  unfolding pow2_powi by (rule power_int_add_1') simp

lemma pow2_pred: "pow2 (k - 1) = pow2 k / 2"
  using pow2_succ [of "k - 1"] by simp

lemma pow2_0: "pow2 0 = 1"
  by (simp add: pow2_def)

lemma normalise_exponent:
  "pow2 k \<le> a \<Longrightarrow> a < pow2 (k + 1) \<Longrightarrow> nat \<bar>k\<bar> \<le> n \<Longrightarrow> normalise n a e = e + k"
proof (induction n arbitrary: a e k)
  case 0
  then show ?case by simp
next
  case (Suc n)
  show ?case
  proof (cases "a \<ge> 2")
    case True
    with Suc.prems(2) have "pow2 1 < pow2 (k + 1)" by (simp add: pow2_def)
    then have k: "1 \<le> k" using pow2_less [of 1 "k + 1"] by simp
    have "normalise n (a / 2) (e + 1) = (e + 1) + (k - 1)"
    proof (rule Suc.IH)
      show "pow2 (k - 1) \<le> a / 2" using Suc.prems(1) by (simp add: pow2_pred)
      show "a / 2 < pow2 (k - 1 + 1)" using Suc.prems(2) by (simp add: pow2_succ)
      show "nat \<bar>k - 1\<bar> \<le> n" using Suc.prems(3) k by simp
    qed
    with True show ?thesis by simp
  next
    case ge: False
    show ?thesis
    proof (cases "a < 1")
      case True
      with Suc.prems(1) have "pow2 k < pow2 0" by (simp add: pow2_0)
      then have k: "k \<le> - 1" using pow2_less [of k 0] by simp
      have "normalise n (a * 2) (e - 1) = (e - 1) + (k + 1)"
      proof (rule Suc.IH)
        show "pow2 (k + 1) \<le> a * 2" using Suc.prems(1) by (simp add: pow2_succ)
        show "a * 2 < pow2 (k + 1 + 1)"
          using Suc.prems(2) pow2_succ [of "k + 1"] by (simp add: pow2_succ)
        show "nat \<bar>k + 1\<bar> \<le> n" using Suc.prems(3) k by simp
      qed
      with True ge show ?thesis by simp
    next
      case False
      with ge have a: "1 \<le> a" "a < 2" by simp_all
      from a(1) Suc.prems(2) have "pow2 0 < pow2 (k + 1)" by (simp add: pow2_0)
      then have 1: "0 \<le> k" using pow2_less [of 0 "k + 1"] by simp
      from a(2) Suc.prems(1) have "pow2 k < pow2 1" by (simp add: pow2_def)
      then have 2: "k \<le> 0" using pow2_less [of k 1] by simp
      from 1 2 a show ?thesis by simp
    qed
  qed
qed

lemma binary_exponent_eq:
  "pow2 k \<le> \<bar>r\<bar> \<Longrightarrow> \<bar>r\<bar> < pow2 (k + 1) \<Longrightarrow> - 2200 \<le> k \<Longrightarrow> k \<le> 2200 \<Longrightarrow>
   binary_exponent r = k"
  unfolding binary_exponent_def
  using normalise_exponent [of k "\<bar>r\<bar>" 2200 0] by simp

text \<open>
  A number between \<open>2 ^ k\<close> and \<open>2 ^ (k + 1)\<close>, for an exponent \<open>k\<close> of the normal range, is
  rounded to a multiple of \<open>2 ^ (k - 52)\<close>.
\<close>

lemma round_double_eq:
  assumes "pow2 k \<le> \<bar>r\<bar>" "\<bar>r\<bar> < pow2 (k + 1)" "- 1022 \<le> k" "k \<le> 1023"
  shows "round_double r = pow2 (k - 52) * of_int (round_half_even (r / pow2 (k - 52)))"
proof -
  from assms have e: "binary_exponent r = k"
    by (intro binary_exponent_eq) simp_all
  from assms(1) pow2_pos [of k] have "r \<noteq> 0" by auto
  with e assms(3) show ?thesis
    by (simp add: round_double_def Let_def max_def)
qed

lemma to_double_eq:
  assumes "pow2 k \<le> \<bar>r\<bar>" "\<bar>r\<bar> < pow2 (k + 1)" "- 1022 \<le> k" "k \<le> 1023"
      and "round_half_even (r / pow2 (k - 52)) = m"
      and "v = pow2 (k - 52) * of_int m"
      and "\<bar>v\<bar> < 2 ^ 1024"
  shows "to_double r = Finite v"
  using round_double_eq [OF assms(1-4)] assms(5-7) by (simp add: to_double_def Let_def)

lemma to_double_0: "to_double 0 = Finite 0"
  by (simp add: to_double_def round_double_def)

lemma fsub_self: "fsub (Finite a) (Finite a) = Finite 0"
  by (simp add: fsub_def to_double_0)

lemma round_double_0_01: "round_double 0.01 = 5764607523034235 / 2 ^ 59"
  by (subst round_double_eq [of "- 7"]) (simp_all add: pow2_def round_half_even_def)

lemma py_float_100_00: "py_float (keep_numeric ''100.00'') = Some (Finite 100)"
proof -
  have "decimal_value (keep_numeric ''100.00'') = Some 100"
    by (simp add: decimal_value_def keep_numeric_def is_digit_def digits_value_def
        digit_value_def)
  moreover have "to_double 100 = Finite 100"
    by (rule to_double_eq [of 6 _ 7036874417766400])
       (simp_all add: pow2_def round_half_even_def)
  ultimately show ?thesis by (simp add: py_float_def)
qed

lemma py_float_8_25: "py_float (keep_numeric ''8.25'') = Some (Finite 8.25)"
proof -
  have "decimal_value (keep_numeric ''8.25'') = Some 8.25"
    by (simp add: decimal_value_def keep_numeric_def is_digit_def digits_value_def
        digit_value_def)
  moreover have "to_double 8.25 = Finite 8.25"
    by (rule to_double_eq [of 3 _ 4644337115725824])
       (simp_all add: pow2_def round_half_even_def)
  ultimately show ?thesis by (simp add: py_float_def)
qed

text \<open>The double nearest to 108.26 is a little above it.\<close>

lemma py_float_108_26:
  "py_float (keep_numeric ''108.26'') = Some (Finite (7618120244673905 / 2 ^ 46))"
proof -
  have "decimal_value (keep_numeric ''108.26'') = Some 108.26"
    by (simp add: decimal_value_def keep_numeric_def is_digit_def digits_value_def
        digit_value_def)
  moreover have "to_double 108.26 = Finite (7618120244673905 / 2 ^ 46)"
    by (rule to_double_eq [of 6 _ 7618120244673905])
       (simp_all add: pow2_def round_half_even_def)
  ultimately show ?thesis by (simp add: py_float_def)
qed

lemma py_float_1134_56:
  "py_float (keep_numeric ''1,134.56'') = Some (Finite (2494923824819077 / 2 ^ 41))"
proof -
  have "decimal_value (keep_numeric ''1,134.56'') = Some 1134.56"
    by (simp add: decimal_value_def keep_numeric_def is_digit_def digits_value_def
        digit_value_def)
  moreover have "to_double 1134.56 = Finite (2494923824819077 / 2 ^ 41)"
    by (rule to_double_eq [of 10 _ 4989847649638154])
       (simp_all add: pow2_def round_half_even_def)
  ultimately show ?thesis by (simp add: py_float_def)
qed

lemma py_float_1234_56:
  "py_float (keep_numeric ''1,234.56'') = Some (Finite (2714826150374277 / 2 ^ 41))"
proof -
  have "decimal_value (keep_numeric ''1,234.56'') = Some 1234.56"
    by (simp add: decimal_value_def keep_numeric_def is_digit_def digits_value_def
        digit_value_def)
  moreover have "to_double 1234.56 = Finite (2714826150374277 / 2 ^ 41)"
    by (rule to_double_eq [of 10 _ 5429652300748554])
       (simp_all add: pow2_def round_half_even_def)
  ultimately show ?thesis by (simp add: py_float_def)
qed

lemma py_float_1300_00: "py_float (keep_numeric ''1,300.00'') = Some (Finite 1300)"
proof -
  have "decimal_value (keep_numeric ''1,300.00'') = Some 1300"
    by (simp add: decimal_value_def keep_numeric_def is_digit_def digits_value_def
        digit_value_def)
  moreover have "to_double 1300 = Finite 1300"
    by (rule to_double_eq [of 10 _ 5717460464435200])
       (simp_all add: pow2_def round_half_even_def)
  ultimately show ?thesis by (simp add: py_float_def)
qed

lemma py_float_2_53:
  "py_float (keep_numeric ''9,007,199,254,740,992.00'') = Some (Finite 9007199254740992)"
proof -
  have "decimal_value (keep_numeric ''9,007,199,254,740,992.00'') = Some 9007199254740992"
    by (simp add: decimal_value_def keep_numeric_def is_digit_def digits_value_def
        digit_value_def)
  moreover have "to_double 9007199254740992 = Finite 9007199254740992"
    by (rule to_double_eq [of 53 _ 4503599627370496])
       (simp_all add: pow2_def round_half_even_def)
  ultimately show ?thesis by (simp add: py_float_def)
qed

lemma py_float_1_00: "py_float (keep_numeric ''1.00'') = Some (Finite 1)"
proof -
  have "decimal_value (keep_numeric ''1.00'') = Some 1"
    by (simp add: decimal_value_def keep_numeric_def is_digit_def digits_value_def
        digit_value_def)
  moreover have "to_double 1 = Finite 1"
    by (rule to_double_eq [of 0 _ 4503599627370496])
       (simp_all add: pow2_def round_half_even_def)
  ultimately show ?thesis by (simp add: py_float_def)
qed

text \<open>
  \<open>100.0 + 8.25 - 108.26\<close> is exact in double precision, and its absolute value is above
  the double nearest to 0.01.
\<close>

lemma rounding_example_flagged:
  "fgreater (fabs (fsub (fadd (Finite 100) (Finite 8.25)) (Finite (7618120244673905 / 2 ^ 46))))
     0.01"
proof -
  have a: "fadd (Finite 100) (Finite 8.25) = Finite 108.25"
    unfolding fadd.simps
    by (rule to_double_eq [of 6 _ 7617416557232128])
       (simp_all add: pow2_def round_half_even_def)
  have b: "fsub (Finite 108.25) (Finite (7618120244673905 / 2 ^ 46))
             = Finite (- (703687441777 / 2 ^ 46))"
    unfolding fsub_def fneg.simps fadd.simps
    by (rule to_double_eq [of "- 7" _ "- 5764607523037184"])
       (simp_all add: pow2_def round_half_even_def)
  show ?thesis
    unfolding a b fabs.simps fgreater.simps round_double_0_01 by simp
qed

text \<open>\<open>2 ^ 53 + 1\<close> is halfway between two doubles and is rounded to the even one.\<close>

lemma absorption_example_passed:
  "\<not> fgreater
        (fabs (fsub (fadd (Finite 9007199254740992) (Finite 1)) (Finite 9007199254740992)))
        0.01"
proof -
  have a: "fadd (Finite 9007199254740992) (Finite 1) = Finite 9007199254740992"
    unfolding fadd.simps
    by (rule to_double_eq [of 53 _ 4503599627370496])
       (simp_all add: pow2_def round_half_even_def)
  show ?thesis
    unfolding a fsub_self fabs.simps fgreater.simps round_double_0_01 by simp
qed

lemma mock_invoice_sum:
  "fadd (Finite (2494923824819077 / 2 ^ 41)) (Finite 100) = Finite (2714826150374277 / 2 ^ 41)"
  unfolding fadd.simps
  by (rule to_double_eq [of 10 _ 5429652300748554])
     (simp_all add: pow2_def round_half_even_def)

lemma mock_invoice_passed:
  "\<not> fgreater
        (fabs (fsub (fadd (Finite (2494923824819077 / 2 ^ 41)) (Finite 100))
                 (Finite (2714826150374277 / 2 ^ 41))))
        0.01"
  unfolding mock_invoice_sum fsub_self fabs.simps fgreater.simps round_double_0_01 by simp

lemma mock_invoice_flagged:
  "fgreater
     (fabs (fsub (fadd (Finite (2494923824819077 / 2 ^ 41)) (Finite 100)) (Finite 1300)))
     0.01"
proof -
  have b: "fsub (Finite (2714826150374277 / 2 ^ 41)) (Finite 1300)
             = Finite (- (143904081843323 / 2 ^ 41))"
    unfolding fsub_def fneg.simps fadd.simps
    by (rule to_double_eq [of 6 _ "- 4604930618986336"])
       (simp_all add: pow2_def round_half_even_def)
  show ?thesis
    unfolding mock_invoice_sum b fabs.simps fgreater.simps round_double_0_01 by simp
qed

lemma extract_numeric_value_eq:
  "extract_numeric_value (map_of fs k) = double_of_true_value fs k"
  by (simp add: extract_numeric_value_def double_of_true_value_def py_float_def
      split: option.splits)

lemma double_of_true_value_present:
  "double_of_true_value fs k = Some r \<Longrightarrow> \<exists>f. map_of fs k = Some f"
  by (auto simp: double_of_true_value_def split: option.splits)

lemma validate_invoice_math_passed:
  assumes "extract_numeric_value (map_of fs ''subtotal'') = Some s"
      and "extract_numeric_value (map_of fs ''tax_amount'') = Some t"
      and "extract_numeric_value (map_of fs ''total_amount'') = Some tot"
      and "\<not> fgreater (fabs (fsub (fadd s t) tot)) 0.01"
  shows "validate_invoice_math float_str fs = fs"
  using assms by (simp add: validate_invoice_math_def)

lemma validate_invoice_math_flagged:
  assumes "extract_numeric_value (map_of fs ''subtotal'') = Some s"
      and "extract_numeric_value (map_of fs ''tax_amount'') = Some t"
      and "extract_numeric_value (map_of fs ''total_amount'') = Some tot"
      and "fgreater (fabs (fsub (fadd s t) tot)) 0.01"
      and "map_of fs ''total_amount'' = Some f"
  shows "validate_invoice_math float_str fs =
           AList.update ''total_amount''
             (f\<lparr>validation_errors :=
                  validation_errors f @ [mismatch_message float_str tot (fadd s t)],
                confidence := confidence f * 0.8\<rparr>)
             fs"
  using assms by (simp add: validate_invoice_math_def)

lemma validate_invoice_math_skipped:
  assumes "extract_numeric_value (map_of fs ''subtotal'') = None
           \<or> extract_numeric_value (map_of fs ''tax_amount'') = None
           \<or> extract_numeric_value (map_of fs ''total_amount'') = None"
  shows "validate_invoice_math float_str fs = fs"
  using assms by (auto simp: validate_invoice_math_def split: option.splits)

lemma validate_invoice_math_flagged_changes:
  assumes "extract_numeric_value (map_of fs ''subtotal'') = Some s"
      and "extract_numeric_value (map_of fs ''tax_amount'') = Some t"
      and "extract_numeric_value (map_of fs ''total_amount'') = Some tot"
      and "fgreater (fabs (fsub (fadd s t) tot)) 0.01"
  shows "validate_invoice_math float_str fs \<noteq> fs"
proof
  assume same: "validate_invoice_math float_str fs = fs"
  from assms(3) obtain f where f: "map_of fs ''total_amount'' = Some f"
    by (cases "map_of fs ''total_amount''") (simp_all add: extract_numeric_value_def)
  have "map_of (validate_invoice_math float_str fs) ''total_amount'' =
      Some (f\<lparr>validation_errors :=
                  validation_errors f @ [mismatch_message float_str tot (fadd s t)],
                confidence := confidence f * 0.8\<rparr>)"
    unfolding validate_invoice_math_flagged [OF assms f] by (simp add: update_conv')
  with same f have "f\<lparr>validation_errors :=
                  validation_errors f @ [mismatch_message float_str tot (fadd s t)],
                confidence := confidence f * 0.8\<rparr> = f"
    by simp
  then have "validation_errors (f\<lparr>validation_errors :=
                  validation_errors f @ [mismatch_message float_str tot (fadd s t)],
                confidence := confidence f * 0.8\<rparr>) = validation_errors f"
    by (rule arg_cong)
  then show False by simp
qed

lemma validate_and_correct_field_errors:
  "validation_errors (validate_and_correct_field n f t) = validate_field_content n (value f) t"
  by (simp add: validate_and_correct_field_def Let_def)

lemma validate_and_correct_field_valid:
  assumes "validate_field_content n (VStr s) t = []" and "value f = VStr s"
  shows "validate_and_correct_field n f t =
           \<lparr>value = VStr s, confidence = confidence f,
            confidence_level = get_confidence_level (confidence f), location = location f,
            original_text = original_text f, validation_errors = []\<rparr>"
  using assms by (simp add: validate_and_correct_field_def Let_def auto_correct_field_def)

lemma validate_and_correct_field_idem:
  assumes "validation_errors (validate_and_correct_field n f t) = []"
      and "value f = VStr s"
  shows "validate_and_correct_field n (validate_and_correct_field n f t) t =
           validate_and_correct_field n f t"
proof -
  from assms have v: "validate_field_content n (VStr s) t = []"
    by (simp add: validate_and_correct_field_errors)
  have 1: "validate_and_correct_field n f t =
           \<lparr>value = VStr s, confidence = confidence f,
            confidence_level = get_confidence_level (confidence f), location = location f,
            original_text = original_text f, validation_errors = []\<rparr>"
    by (rule validate_and_correct_field_valid [OF v assms(2)])
  show ?thesis
    by (subst (2) 1, subst validate_and_correct_field_valid [OF v]) (simp_all add: 1)
qed

lemma validate_and_correct_fields_idem:
  assumes "\<forall>(n, f) \<in> set d. \<exists>s. value f = VStr s"
      and "\<forall>(n, f) \<in> set (validate_and_correct_fields d t). validation_errors f = []"
  shows "validate_and_correct_fields (validate_and_correct_fields d t) t =
           validate_and_correct_fields d t"
  using assms
proof (induction d)
  case Nil
  then show ?case by (simp add: validate_and_correct_fields_def)
next
  case (Cons p d)
  obtain n f where p: "p = (n, f)" by (cases p)
  from Cons.prems(1) obtain s where s: "value f = VStr s"
    and strings: "\<forall>(n, f) \<in> set d. \<exists>s. value f = VStr s"
    by (auto simp: p)
  from Cons.prems(2) have e: "validation_errors (validate_and_correct_field n f t) = []"
    and rest: "\<forall>(n, f) \<in> set (validate_and_correct_fields d t). validation_errors f = []"
    by (auto simp: validate_and_correct_fields_def p)
  from Cons.IH [OF strings rest] validate_and_correct_field_idem [OF e s] show ?case
    by (simp add: validate_and_correct_fields_def p)
qed

lemma bonus_update: "bonus f = f\<lparr>confidence := min (confidence f + 0.05) 1\<rparr>"
  by (simp add: bonus_def)

lemma penalty_errors: "validation_errors (penalty m d f) \<noteq> []"
  by (simp add: penalty_def)

text \<open>
  A field validator of \<open>GeminiService\<close> that reports no error has awarded the bonus to a
  true value and has left a false value alone.
\<close>

lemma validate_date_field_valid:
  "validation_errors (validate_date_field sp f) = [] \<Longrightarrow>
   validate_date_field sp f = (if truthy (value f) then bonus f else f)"
  by (simp add: validate_date_field_def penalty_errors split: if_splits)

lemma validate_amount_field_valid:
  "validation_errors (validate_amount_field f) = [] \<Longrightarrow>
   validate_amount_field f = (if truthy (value f) then bonus f else f)"
  by (cases "py_float (amount_match (py_str (value f)))")
     (simp_all add: validate_amount_field_def penalty_errors split: if_splits)

lemma validate_email_field_valid:
  "validation_errors (validate_email_field f) = [] \<Longrightarrow>
   validate_email_field f = (if truthy (value f) then bonus f else f)"
  by (simp add: validate_email_field_def penalty_errors split: if_splits)

lemma validate_phone_field_valid:
  "validation_errors (validate_phone_field f) = [] \<Longrightarrow>
   validate_phone_field f = (if truthy (value f) then bonus f else f)"
  by (simp add: validate_phone_field_def penalty_errors split: if_splits)

lemma validate_extraction_field_valid:
  assumes "validation_errors (validate_extraction_field sp n f) = []"
  shows "validate_extraction_field sp n f =
           f\<lparr>confidence :=
                (if rule_applies n f then min (confidence f + 0.05) 1 else confidence f),
              confidence_level :=
                get_confidence_level
                  (if rule_applies n f then min (confidence f + 0.05) 1 else confidence f)\<rparr>"
proof -
  define V where "V =
    (if str_in ''date'' (lower n) then validate_date_field sp
     else if any_term_in [''amount'', ''total'', ''price''] n then validate_amount_field
     else if str_in ''email'' (lower n) then validate_email_field
     else if str_in ''phone'' (lower n) then validate_phone_field
     else (\<lambda>f. f))"
  have vef: "validate_extraction_field sp n f =
      (V f)\<lparr>confidence_level := get_confidence_level (confidence (V f))\<rparr>"
    by (simp add: validate_extraction_field_def V_def Let_def)
  from assms have e: "validation_errors (V f) = []"
    by (simp add: vef)
  have "V f = (if rule_applies n f then bonus f else f)"
  proof (cases "str_in ''date'' (lower n)")
    case True
    with e validate_date_field_valid [of sp f] show ?thesis
      by (simp add: V_def rule_applies_def)
  next
    case nd: False
    show ?thesis
    proof (cases "any_term_in [''amount'', ''total'', ''price''] n")
      case True
      with nd e validate_amount_field_valid [of f] show ?thesis
        by (simp add: V_def rule_applies_def)
    next
      case na: False
      show ?thesis
      proof (cases "str_in ''email'' (lower n)")
        case True
        with nd na e validate_email_field_valid [of f] show ?thesis
          by (simp add: V_def rule_applies_def)
      next
        case ne: False
        show ?thesis
        proof (cases "str_in ''phone'' (lower n)")
          case True
          with nd na ne e validate_phone_field_valid [of f] show ?thesis
            by (simp add: V_def rule_applies_def)
        next
          case False
          with nd na ne show ?thesis
            by (simp add: V_def rule_applies_def)
        qed
      qed
    qed
  qed
  then show ?thesis
    by (simp add: vef bonus_update)
qed

text \<open>Whether a validator reports an error depends on the value and the error list only.\<close>

lemma validate_extraction_field_errors_cong:
  assumes "value g = value f" and "validation_errors g = validation_errors f"
  shows "validation_errors (validate_extraction_field sp n g)
           = validation_errors (validate_extraction_field sp n f)"
  using assms
  by (simp add: validate_extraction_field_def Let_def validate_date_field_def
      validate_amount_field_def validate_email_field_def validate_phone_field_def bonus_def
      penalty_def split: option.splits)

lemma validate_extraction_field_twice:
  assumes "validation_errors (validate_extraction_field sp n f) = []"
  shows "validate_extraction_field sp n (validate_extraction_field sp n f) =
           f\<lparr>confidence :=
                (if rule_applies n f then min (confidence f + 0.1) 1 else confidence f),
              confidence_level :=
                get_confidence_level
                  (if rule_applies n f then min (confidence f + 0.1) 1 else confidence f)\<rparr>"
proof -
  define g where "g = validate_extraction_field sp n f"
  have g: "g = f\<lparr>confidence :=
                (if rule_applies n f then min (confidence f + 0.05) 1 else confidence f),
              confidence_level :=
                get_confidence_level
                  (if rule_applies n f then min (confidence f + 0.05) 1 else confidence f)\<rparr>"
    unfolding g_def by (rule validate_extraction_field_valid [OF assms])
  have same: "value g = value f" "validation_errors g = validation_errors f"
    by (simp_all add: g)
  have "validation_errors (validate_extraction_field sp n g) = []"
    using validate_extraction_field_errors_cong [OF same, of sp n] assms by simp
  then have "validate_extraction_field sp n g =
           g\<lparr>confidence :=
                (if rule_applies n g then min (confidence g + 0.05) 1 else confidence g),
              confidence_level :=
                get_confidence_level
                  (if rule_applies n g then min (confidence g + 0.05) 1 else confidence g)\<rparr>"
    by (rule validate_extraction_field_valid)
  moreover have "rule_applies n g = rule_applies n f"
    by (simp add: rule_applies_def same)
  moreover have "min (min (confidence f + 0.05) 1 + 0.05) 1 = min (confidence f + 0.1) 1"
    by (simp add: min_def)
  ultimately show ?thesis
    unfolding g_def [symmetric] by (simp add: g)
qed

lemma validate_extraction_field_fixed:
  assumes "validation_errors (validate_extraction_field sp n f) = []"
  shows "(validate_extraction_field sp n (validate_extraction_field sp n f)
            = validate_extraction_field sp n f)
         = (\<not> rule_applies n f \<or> confidence f \<ge> 0.95)"
proof -
  note twice = validate_extraction_field_twice [OF assms]
  note once = validate_extraction_field_valid [OF assms]
  show ?thesis
  proof (cases "rule_applies n f")
    case False
    then show ?thesis
      by (simp only: twice) (simp add: once)
  next
    case True
    show ?thesis
    proof (cases "confidence f \<ge> 0.95")
      case c: True
      then have "min (confidence f + 0.05) 1 = 1" "min (confidence f + 0.1) 1 = 1"
        by (simp_all add: min_def)
      with True c show ?thesis
        by (simp only: twice) (simp add: once)
    next
      case c: False
      then have ne: "min (confidence f + 0.1) 1 \<noteq> min (confidence f + 0.05) 1"
        by (simp add: min_def)
      have "validate_extraction_field sp n (validate_extraction_field sp n f)
              \<noteq> validate_extraction_field sp n f"
      proof
        assume "validate_extraction_field sp n (validate_extraction_field sp n f)
              = validate_extraction_field sp n f"
        then have "confidence (validate_extraction_field sp n (validate_extraction_field sp n f))
              = confidence (validate_extraction_field sp n f)"
          by (rule arg_cong)
        then have "min (confidence f + 0.1) 1 = min (confidence f + 0.05) 1"
          using True by (simp only: twice) (simp add: once)
        with ne show False by simp
      qed
      with True c show ?thesis by simp
    qed
  qed
qed

lemma amount_1234_56:
  "py_float (amount_match ''1,234.56'') = Some (Finite (2714826150374277 / 2 ^ 41))"
proof -
  have "amount_match ''1,234.56'' = keep_numeric ''1,234.56''"
    by (simp add: amount_match_def keep_numeric_def digit_or_dot_def is_digit_def)
  then show ?thesis by (simp only: py_float_1234_56)
qed

lemma extract_field_keywords_empty: "extract_field_keywords [] = []"
  by (simp add: extract_field_keywords_def split_def)

lemma find_improved_location_no_name:
  "find_improved_location ratio [] v blocks dims = Inr None"
  by (simp add: find_improved_location_def extract_field_keywords_empty located_def)

lemma improve_location_accuracy_no_name:
  "improve_location_accuracy ratio [] v loc ocr =
     refine_bounding_box loc v (text_blocks ocr) (dimensions_of ocr)"
  by (simp add: improve_location_accuracy_def find_improved_location_no_name Let_def)

lemma find_field_location_first_hit:
  assumes "text_blocks ocr \<noteq> []" and "v \<noteq> []"
  shows "find_field_location ratio v ocr =
     map_option (\<lambda>loc. refine_bounding_box loc (strip v) (text_blocks ocr) (dimensions_of ocr))
       (first_hit (strategy_results ratio v ocr))"
  using assms
  by (simp add: find_field_location_def strategy_results_def Let_def
      improve_location_accuracy_no_name split: sum.splits option.splits)

lemma located_block:
  "located hit dims = Inr (Some loc) \<Longrightarrow>
     \<exists>b. hit = Some b \<and> block_location b dims = Inr loc"
  by (auto simp: located_def split: option.splits sum.splits)

lemma best_fuzzy_block:
  "best_fuzzy ratio v blocks (bm, br) = Some b \<Longrightarrow> b \<in> set blocks \<or> bm = Some b"
  by (induction blocks arbitrary: bm br) (auto simp: Let_def split: if_splits)

lemma find_in_set: "find P bs = Some b \<Longrightarrow> b \<in> set bs"
  by (induction bs) (auto split: if_splits)

lemma exact_hit_is_block:
  "find_exact_match v blocks dims = Inr (Some loc) \<Longrightarrow>
     \<exists>b \<in> set blocks. block_location b dims = Inr loc"
proof -
  assume "find_exact_match v blocks dims = Inr (Some loc)"
  then obtain b where f: "find (\<lambda>block. lower v = block_text_lower block) blocks = Some b"
    and loc: "block_location b dims = Inr loc"
    unfolding find_exact_match_def by (blast dest: located_block)
  from f have "b \<in> set blocks" by (rule find_in_set)
  with loc show ?thesis by blast
qed

lemma fuzzy_hit_is_block:
  "find_fuzzy_match ratio v blocks dims = Inr (Some loc) \<Longrightarrow>
     \<exists>b \<in> set blocks. block_location b dims = Inr loc"
proof -
  assume "find_fuzzy_match ratio v blocks dims = Inr (Some loc)"
  then obtain b where "best_fuzzy ratio (lower v) blocks (None, 0) = Some b"
    and loc: "block_location b dims = Inr loc"
    unfolding find_fuzzy_match_def by (blast dest: located_block)
  then have "b \<in> set blocks" by (auto dest: best_fuzzy_block)
  with loc show ?thesis by blast
qed

lemma partial_hit_is_block:
  "find_partial_match v blocks dims = Inr (Some loc) \<Longrightarrow>
     \<exists>b \<in> set blocks. block_location b dims = Inr loc"
proof -
  assume a: "find_partial_match v blocks dims = Inr (Some loc)"
  define by_words where "by_words =
            (if length v > 20
             then (let ws = filter (\<lambda>w. length w > 3) (split (lower v))
                   in find (\<lambda>block.
                              length (filter (\<lambda>w. str_in w (block_text_lower block)) ws)
                                \<ge> min 2 (length ws div 2))
                        blocks)
             else None)"
  define by_substring where "by_substring =
               (find (\<lambda>block.
                        (length v > 5 \<and> str_in (lower v) (block_text_lower block))
                        \<or> (length (block_text_lower block) > 5
                            \<and> str_in (block_text_lower block) (lower v)))
                  blocks)"
  have w: "\<And>b. by_words = Some b \<Longrightarrow> b \<in> set blocks"
    unfolding by_words_def Let_def by (cases "length v > 20") (simp_all add: find_in_set)
  have u: "\<And>b. by_substring = Some b \<Longrightarrow> b \<in> set blocks"
    unfolding by_substring_def by (rule find_in_set)
  from a have "(case by_words of
           Some block \<Rightarrow> located (Some block) dims
         | None \<Rightarrow> located by_substring dims) = Inr (Some loc)"
    unfolding find_partial_match_def Let_def by_words_def by_substring_def .
  then obtain b where "by_words = Some b \<or> by_substring = Some b"
    and loc: "block_location b dims = Inr loc"
    by (cases by_words) (auto dest: located_block)
  then have "b \<in> set blocks" using w u by blast
  with loc show ?thesis by blast
qed

lemma pattern_hit_is_block:
  "find_pattern_match v blocks dims = Inr (Some loc) \<Longrightarrow>
     \<exists>b \<in> set blocks. block_location b dims = Inr loc"
proof -
  assume "find_pattern_match v blocks dims = Inr (Some loc)"
  then obtain b where hit: "map_option snd
       (find (\<lambda>(pattern, block).
                re_search pattern (strip (text block))
                \<and> (str_in (strip_symbols v) (strip_symbols (strip (text block)))
                    \<or> str_in (strip_symbols (strip (text block))) (strip_symbols v)))
          (List.product (filter (\<lambda>pattern. re_search pattern v) shape_patterns) blocks))
       = Some b" and loc: "block_location b dims = Inr loc"
    unfolding find_pattern_match_def Let_def by (blast dest: located_block)
  from hit obtain p where "find (\<lambda>(pattern, block).
                re_search pattern (strip (text block))
                \<and> (str_in (strip_symbols v) (strip_symbols (strip (text block)))
                    \<or> str_in (strip_symbols (strip (text block))) (strip_symbols v)))
          (List.product (filter (\<lambda>pattern. re_search pattern v) shape_patterns) blocks)
       = Some (p, b)"
    by auto
  then have "(p, b) \<in> set (List.product
       (filter (\<lambda>pattern. re_search pattern v) shape_patterns) blocks)"
    by (rule find_in_set)
  then have "b \<in> set blocks" by simp
  with loc show ?thesis by blast
qed

lemma set_take_drop: "set (take n (drop m xs)) \<subseteq> set xs"
  by (meson set_drop_subset set_take_subset subset_trans)

lemma contextual_hit_is_block:
  "find_contextual_match v blocks dims = Inr (Some loc) \<Longrightarrow>
     \<exists>b \<in> set blocks. block_location b dims = Inr loc"
proof -
  define sorted_blocks where
    "sorted_blocks = sort_key (\<lambda>b. (y1 (bounding_box b), x1 (bounding_box b))) blocks"
  define hits where "hits =
            concat
              (map (\<lambda>(i, block).
                      if list_ex (\<lambda>keyword. str_in keyword (block_text_lower block))
                           label_keywords
                      then filter (\<lambda>nearby_block.
                                     str_in (lower v) (block_text_lower nearby_block)
                                     \<or> str_in (block_text_lower nearby_block) (lower v))
                             (take (min (i + 5) (length sorted_blocks) - (i + 1))
                                (drop (i + 1) sorted_blocks))
                      else [])
                 (enumerate 0 sorted_blocks))"
  assume "find_contextual_match v blocks dims = Inr (Some loc)"
  then have "located (case hits of [] \<Rightarrow> None | nearby_block # rest \<Rightarrow> Some nearby_block) dims
      = Inr (Some loc)"
    unfolding find_contextual_match_def Let_def hits_def sorted_blocks_def .
  then obtain b where b: "(case hits of [] \<Rightarrow> None | nearby_block # rest \<Rightarrow> Some nearby_block) = Some b"
    and loc: "block_location b dims = Inr loc"
    by (blast dest: located_block)
  from b have "b \<in> set hits" by (cases hits) auto
  then have "b \<in> set sorted_blocks"
    using set_take_drop by (fastforce simp: hits_def split: if_splits)
  then have "b \<in> set blocks" by (simp add: sorted_blocks_def)
  with loc show ?thesis by blast
qed

lemma strategy_hit_is_block:
  assumes "r \<in> set (strategy_results ratio v ocr)" and "r = Inr (Some loc)"
  shows "\<exists>b \<in> set (text_blocks ocr). block_location b (dimensions_of ocr) = Inr loc"
proof -
  let ?bs = "text_blocks ocr" and ?dims = "dimensions_of ocr"
  from assms have
    "find_exact_match (strip v) ?bs ?dims = Inr (Some loc)
     \<or> find_fuzzy_match ratio (strip v) ?bs ?dims = Inr (Some loc)
     \<or> find_partial_match (strip v) ?bs ?dims = Inr (Some loc)
     \<or> find_pattern_match (strip v) ?bs ?dims = Inr (Some loc)
     \<or> find_contextual_match (strip v) ?bs ?dims = Inr (Some loc)"
    by (auto simp: strategy_results_def Let_def)
  then show ?thesis
    by (elim disjE)
       (erule exact_hit_is_block fuzzy_hit_is_block partial_hit_is_block pattern_hit_is_block
          contextual_hit_is_block)+
qed

lemma no_plausible_hit:
  assumes "\<And>r loc. r \<in> set rs \<Longrightarrow> r = Inr (Some loc) \<Longrightarrow> \<not> plausible loc"
  shows "first_plausible_hit rs = None"
  using assms
proof (induction rs)
  case Nil
  then show ?case by simp
next
  case (Cons r rs)
  then have rest: "first_plausible_hit rs = None" by simp
  show ?case
  proof (cases r)
    case (Inl e)
    with rest show ?thesis by simp
  next
    case (Inr hit)
    show ?thesis
    proof (cases hit)
      case None
      with Inr rest show ?thesis by simp
    next
      case (Some loc)
      with Inr Cons.prems have "\<not> plausible loc" by simp
      with Inr Some rest show ?thesis by simp
    qed
  qed
qed

lemma title_location:
  "block_location title_block (1000, 1200)
     = Inr \<lparr>x = 0.05, y = 1 / 30, width = 0.9, height = 1 / 24\<rparr>"
  by (simp add: block_location_def title_block_def)

lemma title_exact:
  "find_exact_match (strip ''INVOICE'') [title_block] (1000, 1200)
     = Inr (Some \<lparr>x = 0.05, y = 1 / 30, width = 0.9, height = 1 / 24\<rparr>)"
proof -
  have "strip ''INVOICE'' = ''INVOICE''"
    by (simp add: strip_def is_space_def)
  moreover have "lower ''INVOICE'' = block_text_lower title_block"
    by (simp add: block_text_lower_def title_block_def strip_def is_space_def)
  ultimately show ?thesis
    by (simp add: find_exact_match_def located_def title_location)
qed

lemma title_refined:
  "refine_bounding_box \<lparr>x = 0.05, y = 1 / 30, width = 0.9, height = 1 / 24\<rparr> ''INVOICE'' bs dims
     = \<lparr>x = 0.05, y = 1 / 30, width = 0.9, height = 1 / 24\<rparr>"
  by (simp add: refine_bounding_box_def Let_def)

lemma title_hit:
  "first_hit (strategy_results ratio ''INVOICE''
       \<lparr>text_blocks = [title_block], image_dimensions = Some (1000, 1200)\<rparr>)
     = Some \<lparr>x = 0.05, y = 1 / 30, width = 0.9, height = 1 / 24\<rparr>"
proof -
  let ?ocr = "\<lparr>text_blocks = [title_block], image_dimensions = Some (1000, 1200)\<rparr>"
  have dims: "dimensions_of ?ocr = (1000, 1200)" and bs: "text_blocks ?ocr = [title_block]"
    by (simp_all add: dimensions_of_def)
  show ?thesis
    unfolding strategy_results_def Let_def dims bs title_exact by (simp only: first_hit.simps)
qed

lemma title_found:
  "find_field_location ratio ''INVOICE''
       \<lparr>text_blocks = [title_block], image_dimensions = Some (1000, 1200)\<rparr>
     = Some \<lparr>x = 0.05, y = 1 / 30, width = 0.9, height = 1 / 24\<rparr>"
proof -
  let ?ocr = "\<lparr>text_blocks = [title_block], image_dimensions = Some (1000, 1200)\<rparr>"
  have "find_field_location ratio ''INVOICE'' ?ocr =
     map_option (\<lambda>loc. refine_bounding_box loc (strip ''INVOICE'') (text_blocks ?ocr)
                        (dimensions_of ?ocr))
       (first_hit (strategy_results ratio ''INVOICE'' ?ocr))"
    by (rule find_field_location_first_hit) simp_all
  also have "\<dots> = Some (refine_bounding_box
      \<lparr>x = 0.05, y = 1 / 30, width = 0.9, height = 1 / 24\<rparr>
      (strip ''INVOICE'') (text_blocks ?ocr) (dimensions_of ?ocr))"
    unfolding title_hit by simp
  also have "strip ''INVOICE'' = ''INVOICE''"
    by (simp add: strip_def is_space_def)
  finally show ?thesis
    by (simp only: title_refined)
qed

lemma find_field_location_nothing:
  "text_blocks ocr = [] \<or> v = [] \<Longrightarrow> find_field_location ratio v ocr = None"
  by (auto simp: find_field_location_def)

lemma dropWhile_replicate_same:
  "\<not> P c \<Longrightarrow> dropWhile P (replicate n c) = replicate n c"
  by (cases n) simp_all

lemma strip_replicate:
  "\<not> is_space c \<Longrightarrow> strip (replicate n c) = replicate n c"
  by (simp add: strip_def dropWhile_replicate_same)

lemma long_value_stripped: "strip long_value = long_value"
  unfolding long_value_def by (rule strip_replicate) (simp add: is_space_def)

lemma long_value_length: "length long_value = 130"
  by (simp add: long_value_def)

lemma long_value_not_empty: "long_value \<noteq> []"
  using long_value_length by auto

lemma long_block_location:
  "block_location long_block (1000, 1200)
     = Inr \<lparr>x = 0.1, y = 1 / 6, width = 0.8, height = 1 / 60\<rparr>"
  by (simp add: block_location_def long_block_def)

lemma long_block_exact:
  "find_exact_match long_value [long_block] (1000, 1200)
     = Inr (Some \<lparr>x = 0.1, y = 1 / 6, width = 0.8, height = 1 / 60\<rparr>)"
proof -
  have "block_text_lower long_block = lower long_value"
    by (simp add: block_text_lower_def long_block_def long_value_stripped)
  then show ?thesis
    by (simp add: find_exact_match_def located_def long_block_location)
qed

lemma long_block_hit:
  "first_hit (strategy_results ratio long_value
       \<lparr>text_blocks = [long_block], image_dimensions = Some (1000, 1200)\<rparr>)
     = Some \<lparr>x = 0.1, y = 1 / 6, width = 0.8, height = 1 / 60\<rparr>"
proof -
  let ?ocr = "\<lparr>text_blocks = [long_block], image_dimensions = Some (1000, 1200)\<rparr>"
  have dims: "dimensions_of ?ocr = (1000, 1200)" and bs: "text_blocks ?ocr = [long_block]"
    by (simp_all add: dimensions_of_def)
  show ?thesis
    unfolding strategy_results_def Let_def dims bs long_value_stripped long_block_exact
    by (simp only: first_hit.simps)
qed

lemma long_value_refined:
  "refine_bounding_box \<lparr>x = 0.1, y = 1 / 6, width = 0.8, height = 1 / 60\<rparr> long_value bs dims
     = \<lparr>x = - 0.04, y = 1 / 6, width = 1.04, height = 1 / 60\<rparr>"
  by (simp add: refine_bounding_box_def Let_def long_value_length)

lemma validate_location_long_block:
  "validate_location \<lparr>x = 0.1, y = 1 / 6, width = 0.8, height = 1 / 60\<rparr> n v"
  by (simp add: validate_location_def)

lemma fmod_nonneg: "0 < b \<Longrightarrow> 0 \<le> fmod a b"
proof -
  assume b: "0 < b"
  have "of_int \<lfloor>a / b\<rfloor> \<le> a / b" by simp
  then have "b * of_int \<lfloor>a / b\<rfloor> \<le> b * (a / b)"
    using b by (intro mult_left_mono) simp_all
  also have "b * (a / b) = a" using b by simp
  finally show ?thesis by (simp add: fmod_def)
qed

lemma simulated_right_edge:
  "x (simulated_location hash n (Suc 0) name) + width (simulated_location hash n (Suc 0) name)
     \<ge> 1.2"
  using fmod_nonneg [of 3 "0.2 * real_of_int (hash name)"]
  by (simp add: simulated_location_def)

subsection \<open>C7: document-level confidence\<close>

text \<open>
  C7. For every non-empty field set, \<open>_calculate_weighted_confidence\<close> returns the weighted
  mean of the per-field confidences, where a field weighs 2 when its lower-cased name contains
  one of \<open>amount\<close>, \<open>total\<close>, \<open>number\<close>, \<open>date\<close>, \<open>name\<close> and 1 otherwise; for the
  empty field set it returns 0.
\<close>

theorem weighted_confidence_is_weighted_mean:
  "calculate_weighted_confidence d =
     (if d = [] then 0
      else sum_list (map (\<lambda>(n, f). confidence f *
             (if any_term_in [''amount'', ''total'', ''number'', ''date'', ''name''] n
              then 2 else 1)) d)
           / sum_list (map (\<lambda>(n, f).
               if any_term_in [''amount'', ''total'', ''number'', ''date'', ''name''] n
               then 2 else 1) d))"
  using total_weight_pos [of d]
  by (simp add: calculate_weighted_confidence_def weighted_loop_sums field_weight_def
      critical_field_patterns_def)

text \<open>
  The example of the specification: \<open>total_amount\<close> at 0.95 (weight 2) and \<open>notes\<close> at 0.80
  (weight 1) give \<open>(0.95 * 2 + 0.80 * 1) / 3 = 0.9\<close>.
\<close>

theorem weighted_confidence_example:
  "calculate_weighted_confidence
     [(''total_amount'', \<lparr>value = VStr ''1,234.56'', confidence = 0.95, confidence_level = HIGH,
         location = None, original_text = Some ''1,234.56'', validation_errors = []\<rparr>),
      (''notes'', \<lparr>value = VStr ''n/a'', confidence = 0.80, confidence_level = MEDIUM,
         location = None, original_text = Some ''n/a'', validation_errors = []\<rparr>)] = 0.9"
  by (simp add: weighted_confidence_is_weighted_mean any_term_in_def lower_def lower_char_def)

subsection \<open>C5: confidence calibration\<close>

text \<open>
  C5 as stated fails on the code. \<open>_calibrate_confidence\<close> boosts only the fields named
  \<open>total_amount\<close>, \<open>invoice_number\<close> and \<open>vendor_name\<close>, and it tests the confidence before
  the mode factor against 0.8. In mode \<open>fast\<close> a \<open>total_amount\<close> at 0.85 is boosted by the
  code (0.85 exceeds 0.8) and not by the rule as stated (0.765 does not); in mode
  \<open>balanced\<close> a \<open>due_date\<close> at 0.9 is boosted by the rule as stated and not by the code.
\<close>

theorem calibration_claim_counterexample:
  "confidence (calibrate_field ''fast'' ''total_amount''
      \<lparr>value = VStr ''$1,234.56'', confidence = 0.85, confidence_level = MEDIUM, location = None,
       original_text = Some ''$1,234.56'', validation_errors = []\<rparr>)
   \<noteq> calibration_as_specified ''fast'' ''total_amount''
      \<lparr>value = VStr ''$1,234.56'', confidence = 0.85, confidence_level = MEDIUM, location = None,
       original_text = Some ''$1,234.56'', validation_errors = []\<rparr>
   \<and> confidence (calibrate_field ''balanced'' ''due_date''
      \<lparr>value = VStr ''2025-07-18'', confidence = 0.9, confidence_level = HIGH, location = None,
       original_text = Some ''2025-07-18'', validation_errors = []\<rparr>)
   \<noteq> calibration_as_specified ''balanced'' ''due_date''
      \<lparr>value = VStr ''2025-07-18'', confidence = 0.9, confidence_level = HIGH, location = None,
       original_text = Some ''2025-07-18'', validation_errors = []\<rparr>"
  by (simp add: calibrate_field_def calibrated_confidence_def calibration_as_specified_def
      mode_factor_def any_term_in_def critical_field_patterns_def lower_def lower_char_def Let_def)

text \<open>
  C5, amended. For every field of the set, \<open>_calibrate_confidence\<close> computes the final
  confidence by (1) multiplying by the mode factor (\<open>high\<close> 0.95, \<open>fast\<close> 0.90, every other
  mode 1.0); (2) if the field is named \<open>total_amount\<close>, \<open>invoice_number\<close> or \<open>vendor_name\<close>
  and its confidence before step 1 exceeds 0.8, multiplying by 1.05, capped at 0.98;
  (3) if \<open>validation_errors\<close> is non-empty, multiplying by 0.7; (4) clamping to \<open>[0, 1]\<close>
  and recomputing \<open>confidence_level\<close>. Nothing else in the field changes, and the field
  names and their order are kept.
\<close>

theorem calibration_follows_amended_rule:
  "map_of (calibrate_confidence d t mode) n =
     map_option
       (\<lambda>f. f\<lparr>confidence := calibration_as_amended mode n f,
               confidence_level := get_confidence_level (calibration_as_amended mode n f)\<rparr>)
       (map_of d n)
   \<and> map fst (calibrate_confidence d t mode) = map fst d"
proof
  have "map_of (calibrate_confidence d t mode) n = map_option (calibrate_field mode n) (map_of d n)"
    unfolding calibrate_confidence_def by (rule map_of_keyed_map)
  also have "calibrate_field mode n =
     (\<lambda>f. f\<lparr>confidence := calibration_as_amended mode n f,
               confidence_level := get_confidence_level (calibration_as_amended mode n f)\<rparr>)"
    by (rule ext) (simp only: calibrate_field_def calibrated_confidence_amended)
  finally show "map_of (calibrate_confidence d t mode) n =
     map_option
       (\<lambda>f. f\<lparr>confidence := calibration_as_amended mode n f,
               confidence_level := get_confidence_level (calibration_as_amended mode n f)\<rparr>)
       (map_of d n)" .
  show "map fst (calibrate_confidence d t mode) = map fst d"
    unfolding calibrate_confidence_def by (rule keys_keyed_map)
qed

text \<open>
  In mode \<open>fast\<close> a \<open>total_amount\<close> at 0.85 becomes
  \<open>min 0.98 (0.85 * 0.90 * 1.05) = 0.80325\<close>.
\<close>

theorem calibration_amended_witness:
  "map_of (calibrate_confidence
      [(''total_amount'',
        \<lparr>value = VStr ''$1,234.56'', confidence = 0.85, confidence_level = MEDIUM, location = None,
         original_text = Some ''$1,234.56'', validation_errors = []\<rparr>),
       (''due_date'',
        \<lparr>value = VStr ''soon'', confidence = 0.9, confidence_level = HIGH, location = None,
         original_text = Some ''soon'', validation_errors = [''Invalid date format'']\<rparr>)]
      INVOICE ''fast'') ''total_amount''
   = Some \<lparr>value = VStr ''$1,234.56'', confidence = 0.80325, confidence_level = MEDIUM,
           location = None, original_text = Some ''$1,234.56'', validation_errors = []\<rparr>"
  using calibration_follows_amended_rule [of
      "[(''total_amount'',
        \<lparr>value = VStr ''$1,234.56'', confidence = 0.85, confidence_level = MEDIUM, location = None,
         original_text = Some ''$1,234.56'', validation_errors = []\<rparr>),
       (''due_date'',
        \<lparr>value = VStr ''soon'', confidence = 0.9, confidence_level = HIGH, location = None,
         original_text = Some ''soon'', validation_errors = [''Invalid date format'']\<rparr>)]"
      INVOICE "''fast''" "''total_amount''"]
  by (simp add: calibration_as_amended_def mode_factor_def get_confidence_level_def Let_def)

subsection \<open>C10: the enhanced pipeline of the enterprise service\<close>

text \<open>
  C10. For every image, document type and quality mode, \<open>_process_with_enhanced_pipeline\<close>
  returns exactly the field set of \<open>_process_with_standard_pipeline\<close>. Its call of
  \<open>process_document_enhanced\<close> passes three positional arguments and the keyword
  \<open>accuracy_mode\<close>, which is none of the parameters \<open>image_data\<close>, \<open>document_type\<close>,
  \<open>ocr_results\<close>: binding the arguments raises \<open>TypeError\<close>, whatever the body of the
  method would compute, and the handler falls back to the standard pipeline. Without the
  enhanced service the method calls the standard pipeline directly.
\<close>

theorem enhanced_pipeline_is_standard_pipeline:
  "bind_arguments process_document_enhanced_parameters 3 [''accuracy_mode''] = Inl TypeError
   \<and> fst (process_with_enhanced_pipeline g enhanced_ocr enhanced_gemini image_data t quality_mode)
       = process_with_standard_pipeline g image_data t"
proof
  show b: "bind_arguments process_document_enhanced_parameters 3 [''accuracy_mode''] = Inl TypeError"
    by (simp add: bind_arguments_def process_document_enhanced_parameters_def)
  show "fst (process_with_enhanced_pipeline g enhanced_ocr enhanced_gemini image_data t quality_mode)
       = process_with_standard_pipeline g image_data t"
    by (simp add: process_with_enhanced_pipeline_def b Let_def split: option.splits)
qed

text \<open>
  With both enhanced services present, a decodable invoice in mode \<open>balanced\<close> gets the
  fields of \<open>GeminiService.extract_fields\<close>.
\<close>

theorem enhanced_pipeline_witness:
  "\<forall>g ocr body.
     fst (process_with_enhanced_pipeline g (Some ocr) (Some body)
            \<lparr>decodable = True, preparable = True, enhanceable = True, enhanced_for = None\<rparr>
            INVOICE ''balanced'')
     = extract_fields g
         \<lparr>decodable = True, preparable = True, enhanceable = True, enhanced_for = None\<rparr> INVOICE"
  using enhanced_pipeline_is_standard_pipeline
  by (simp add: process_with_standard_pipeline_def)

subsection \<open>C6: invoice arithmetic\<close>

text \<open>
  C6 as stated fails on the code, in three ways.
  The check is computed in double precision: for \<open>100.00 + 8.25\<close> against \<open>108.26\<close> the
  three values parse, and the difference of the numbers is exactly 0.01, but the double
  nearest to 108.26 lies above it, the computed difference is 0.010000000000005116, and
  the total is flagged.
  For \<open>9,007,199,254,740,992.00 + 1.00\<close> against \<open>9,007,199,254,740,992.00\<close> every number is
  a double and the difference is 1, but the sum is rounded back to \<open>2 ^ 53\<close> and nothing is
  flagged.
  A value is read only when it is true: a \<open>tax_amount\<close> that is the JSON number 0 is present
  and parses, as \<open>0\<close>, to the number 0, but \<open>not field.value\<close> holds for it, and the check
  of \<open>100.00 + 0\<close> against \<open>200.00\<close> is skipped.
\<close>

theorem invoice_math_claim_counterexample:
  "(let fs =
      [(''subtotal'', \<lparr>value = VStr ''100.00'', confidence = 0.90, confidence_level = HIGH,
          location = None, original_text = Some ''100.00'', validation_errors = []\<rparr>),
       (''tax_amount'', \<lparr>value = VStr ''8.25'', confidence = 0.88, confidence_level = MEDIUM,
          location = None, original_text = Some ''8.25'', validation_errors = []\<rparr>),
       (''total_amount'', \<lparr>value = VStr ''108.26'', confidence = 0.95, confidence_level = HIGH,
          location = None, original_text = Some ''108.26'', validation_errors = []\<rparr>)]
    in numeric_after_stripping fs ''subtotal'' = Some 100
       \<and> numeric_after_stripping fs ''tax_amount'' = Some 8.25
       \<and> numeric_after_stripping fs ''total_amount'' = Some 108.26
       \<and> \<bar>100 + 8.25 - 108.26\<bar> \<le> (0.01 :: real)
       \<and> (\<forall>float_str. validate_invoice_math float_str fs \<noteq> fs))
   \<and> (let fs =
      [(''subtotal'', \<lparr>value = VStr ''9,007,199,254,740,992.00'', confidence = 0.90,
          confidence_level = HIGH, location = None,
          original_text = Some ''9,007,199,254,740,992.00'', validation_errors = []\<rparr>),
       (''tax_amount'', \<lparr>value = VStr ''1.00'', confidence = 0.88, confidence_level = MEDIUM,
          location = None, original_text = Some ''1.00'', validation_errors = []\<rparr>),
       (''total_amount'', \<lparr>value = VStr ''9,007,199,254,740,992.00'', confidence = 0.95,
          confidence_level = HIGH, location = None,
          original_text = Some ''9,007,199,254,740,992.00'', validation_errors = []\<rparr>)]
    in numeric_after_stripping fs ''subtotal'' = Some 9007199254740992
       \<and> numeric_after_stripping fs ''tax_amount'' = Some 1
       \<and> numeric_after_stripping fs ''total_amount'' = Some 9007199254740992
       \<and> \<bar>9007199254740992 + 1 - 9007199254740992\<bar> > (0.01 :: real)
       \<and> (\<forall>float_str. validate_invoice_math float_str fs = fs))
   \<and> (let fs =
      [(''subtotal'', \<lparr>value = VStr ''100.00'', confidence = 0.90, confidence_level = HIGH,
          location = None, original_text = Some ''100.00'', validation_errors = []\<rparr>),
       (''tax_amount'', \<lparr>value = VOther False ''0'', confidence = 0.88,
          confidence_level = MEDIUM, location = None, original_text = None,
          validation_errors = []\<rparr>),
       (''total_amount'', \<lparr>value = VStr ''200.00'', confidence = 0.95, confidence_level = HIGH,
          location = None, original_text = Some ''200.00'', validation_errors = []\<rparr>)]
    in numeric_after_stripping fs ''subtotal'' = Some 100
       \<and> numeric_after_stripping fs ''tax_amount'' = Some 0
       \<and> numeric_after_stripping fs ''total_amount'' = Some 200
       \<and> \<bar>100 + 0 - 200\<bar> > (0.01 :: real)
       \<and> (\<forall>float_str. validate_invoice_math float_str fs = fs))"
proof (intro conjI)
  let ?fs = "[(''subtotal'', \<lparr>value = VStr ''100.00'', confidence = 0.90,
          confidence_level = HIGH,
          location = None, original_text = Some ''100.00'', validation_errors = []\<rparr>),
       (''tax_amount'', \<lparr>value = VStr ''8.25'', confidence = 0.88, confidence_level = MEDIUM,
          location = None, original_text = Some ''8.25'', validation_errors = []\<rparr>),
       (''total_amount'', \<lparr>value = VStr ''108.26'', confidence = 0.95, confidence_level = HIGH,
          location = None, original_text = Some ''108.26'', validation_errors = []\<rparr>)]"
  have n: "numeric_after_stripping ?fs ''subtotal'' = Some 100"
    "numeric_after_stripping ?fs ''tax_amount'' = Some 8.25"
    "numeric_after_stripping ?fs ''total_amount'' = Some 108.26"
    by (simp_all add: numeric_after_stripping_def decimal_value_def keep_numeric_def
        is_digit_def digits_value_def digit_value_def)
  have e: "extract_numeric_value (map_of ?fs ''subtotal'') = Some (Finite 100)"
    "extract_numeric_value (map_of ?fs ''tax_amount'') = Some (Finite 8.25)"
    "extract_numeric_value (map_of ?fs ''total_amount'')
       = Some (Finite (7618120244673905 / 2 ^ 46))"
    using py_float_100_00 py_float_8_25 py_float_108_26
    by (simp_all add: extract_numeric_value_def)
  have "validate_invoice_math float_str ?fs \<noteq> ?fs" for float_str
    by (rule validate_invoice_math_flagged_changes [OF e rounding_example_flagged])
  with n show "let fs = ?fs
    in numeric_after_stripping fs ''subtotal'' = Some 100
       \<and> numeric_after_stripping fs ''tax_amount'' = Some 8.25
       \<and> numeric_after_stripping fs ''total_amount'' = Some 108.26
       \<and> \<bar>100 + 8.25 - 108.26\<bar> \<le> (0.01 :: real)
       \<and> (\<forall>float_str. validate_invoice_math float_str fs \<noteq> fs)"
    unfolding Let_def by simp
next
  let ?fs = "[(''subtotal'', \<lparr>value = VStr ''9,007,199,254,740,992.00'', confidence = 0.90,
          confidence_level = HIGH, location = None,
          original_text = Some ''9,007,199,254,740,992.00'', validation_errors = []\<rparr>),
       (''tax_amount'', \<lparr>value = VStr ''1.00'', confidence = 0.88, confidence_level = MEDIUM,
          location = None, original_text = Some ''1.00'', validation_errors = []\<rparr>),
       (''total_amount'', \<lparr>value = VStr ''9,007,199,254,740,992.00'', confidence = 0.95,
          confidence_level = HIGH, location = None,
          original_text = Some ''9,007,199,254,740,992.00'', validation_errors = []\<rparr>)]"
  have n: "numeric_after_stripping ?fs ''subtotal'' = Some 9007199254740992"
    "numeric_after_stripping ?fs ''tax_amount'' = Some 1"
    "numeric_after_stripping ?fs ''total_amount'' = Some 9007199254740992"
    by (simp_all add: numeric_after_stripping_def decimal_value_def keep_numeric_def
        is_digit_def digits_value_def digit_value_def)
  have e: "extract_numeric_value (map_of ?fs ''subtotal'') = Some (Finite 9007199254740992)"
    "extract_numeric_value (map_of ?fs ''tax_amount'') = Some (Finite 1)"
    "extract_numeric_value (map_of ?fs ''total_amount'') = Some (Finite 9007199254740992)"
    using py_float_2_53 py_float_1_00
    by (simp_all add: extract_numeric_value_def)
  have "validate_invoice_math float_str ?fs = ?fs" for float_str
    by (rule validate_invoice_math_passed [OF e absorption_example_passed])
  with n show "let fs = ?fs
    in numeric_after_stripping fs ''subtotal'' = Some 9007199254740992
       \<and> numeric_after_stripping fs ''tax_amount'' = Some 1
       \<and> numeric_after_stripping fs ''total_amount'' = Some 9007199254740992
       \<and> \<bar>9007199254740992 + 1 - 9007199254740992\<bar> > (0.01 :: real)
       \<and> (\<forall>float_str. validate_invoice_math float_str fs = fs)"
    unfolding Let_def by simp
next
  let ?fs = "[(''subtotal'', \<lparr>value = VStr ''100.00'', confidence = 0.90,
          confidence_level = HIGH,
          location = None, original_text = Some ''100.00'', validation_errors = []\<rparr>),
       (''tax_amount'', \<lparr>value = VOther False ''0'', confidence = 0.88,
          confidence_level = MEDIUM, location = None, original_text = None,
          validation_errors = []\<rparr>),
       (''total_amount'', \<lparr>value = VStr ''200.00'', confidence = 0.95, confidence_level = HIGH,
          location = None, original_text = Some ''200.00'', validation_errors = []\<rparr>)]"
  have n: "numeric_after_stripping ?fs ''subtotal'' = Some 100"
    "numeric_after_stripping ?fs ''tax_amount'' = Some 0"
    "numeric_after_stripping ?fs ''total_amount'' = Some 200"
    by (simp_all add: numeric_after_stripping_def decimal_value_def keep_numeric_def
        is_digit_def digits_value_def digit_value_def)
  have e: "extract_numeric_value (map_of ?fs ''tax_amount'') = None"
    by (simp add: extract_numeric_value_def)
  have "validate_invoice_math float_str ?fs = ?fs" for float_str
    by (rule validate_invoice_math_skipped, rule disjI2, rule disjI1, rule e)
  with n show "let fs = ?fs
    in numeric_after_stripping fs ''subtotal'' = Some 100
       \<and> numeric_after_stripping fs ''tax_amount'' = Some 0
       \<and> numeric_after_stripping fs ''total_amount'' = Some 200
       \<and> \<bar>100 + 0 - 200\<bar> > (0.01 :: real)
       \<and> (\<forall>float_str. validate_invoice_math float_str fs = fs)"
    unfolding Let_def by simp
qed

text \<open>
  C6, amended. A value is read from a field that is present and whose value is true (not
  \<open>None\<close>, empty, a numeric zero or another false value), as the double nearest to the
  number that is left of its text after every character outside \<open>[-0-9.]\<close> has been
  removed. If \<open>subtotal\<close>, \<open>tax_amount\<close> and \<open>total_amount\<close> can all be read, then
  \<open>_validate_invoice_math\<close> computes \<open>|(subtotal + tax_amount) - total_amount|\<close> in double
  precision, rounding the sum and the difference to the nearest double; when the result is
  not greater than the double nearest to 0.01 the field set is unchanged, and otherwise
  one validation error is appended to \<open>total_amount\<close> and its confidence is multiplied by
  0.8, nothing else changing (the confidence level is not recomputed). If one of the three
  cannot be read, the field set is unchanged.
\<close>

theorem invoice_math_check_in_doubles:
  "(\<forall>s t tot.
      double_of_true_value fs ''subtotal'' = Some s
      \<and> double_of_true_value fs ''tax_amount'' = Some t
      \<and> double_of_true_value fs ''total_amount'' = Some tot \<longrightarrow>
        (\<not> fgreater (fabs (fsub (fadd s t) tot)) 0.01 \<longrightarrow>
           validate_invoice_math float_str fs = fs)
        \<and> (fgreater (fabs (fsub (fadd s t) tot)) 0.01 \<longrightarrow>
             (\<exists>f. map_of fs ''total_amount'' = Some f
                \<and> validate_invoice_math float_str fs =
                    AList.update ''total_amount''
                      (f\<lparr>validation_errors :=
                           validation_errors f
                             @ [mismatch_message float_str tot (fadd s t)],
                         confidence := confidence f * 0.8\<rparr>)
                      fs)))
   \<and> (double_of_true_value fs ''subtotal'' = None
        \<or> double_of_true_value fs ''tax_amount'' = None
        \<or> double_of_true_value fs ''total_amount'' = None \<longrightarrow>
          validate_invoice_math float_str fs = fs)"
proof (intro conjI allI impI)
  fix s t tot
  assume n: "double_of_true_value fs ''subtotal'' = Some s
      \<and> double_of_true_value fs ''tax_amount'' = Some t
      \<and> double_of_true_value fs ''total_amount'' = Some tot"
  then have e: "extract_numeric_value (map_of fs ''subtotal'') = Some s"
    "extract_numeric_value (map_of fs ''tax_amount'') = Some t"
    "extract_numeric_value (map_of fs ''total_amount'') = Some tot"
    by (simp_all add: extract_numeric_value_eq)
  {
    assume "\<not> fgreater (fabs (fsub (fadd s t) tot)) 0.01"
    then show "validate_invoice_math float_str fs = fs"
      by (rule validate_invoice_math_passed [OF e])
  next
    assume big: "fgreater (fabs (fsub (fadd s t) tot)) 0.01"
    from n obtain f where f: "map_of fs ''total_amount'' = Some f"
      using double_of_true_value_present by blast
    from validate_invoice_math_flagged [OF e big f] f
    show "\<exists>f. map_of fs ''total_amount'' = Some f
                \<and> validate_invoice_math float_str fs =
                    AList.update ''total_amount''
                      (f\<lparr>validation_errors :=
                           validation_errors f
                             @ [mismatch_message float_str tot (fadd s t)],
                         confidence := confidence f * 0.8\<rparr>)
                      fs"
      by blast
  }
next
  assume "double_of_true_value fs ''subtotal'' = None
        \<or> double_of_true_value fs ''tax_amount'' = None
        \<or> double_of_true_value fs ''total_amount'' = None"
  then show "validate_invoice_math float_str fs = fs"
    by (intro validate_invoice_math_skipped) (simp add: extract_numeric_value_eq)
qed

text \<open>
  The example of the specification: \<open>1,134.56 + 100.00\<close> is \<open>1,234.56\<close> in double precision
  too, and the fields are unchanged; a total of \<open>1,300.00\<close> gets the error and the
  confidence \<open>0.95 * 0.8 = 0.76\<close>. With an empty \<open>tax_amount\<close> the check is skipped.
\<close>

theorem invoice_math_witness:
  "\<forall>float_str.
     validate_invoice_math float_str
       [(''subtotal'', \<lparr>value = VStr ''1,134.56'', confidence = 0.90, confidence_level = HIGH,
           location = None, original_text = Some ''1,134.56'', validation_errors = []\<rparr>),
        (''tax_amount'', \<lparr>value = VStr ''100.00'', confidence = 0.88,
           confidence_level = MEDIUM,
           location = None, original_text = Some ''100.00'', validation_errors = []\<rparr>),
        (''total_amount'', \<lparr>value = VStr ''1,234.56'', confidence = 0.95,
           confidence_level = HIGH,
           location = None, original_text = Some ''1,234.56'', validation_errors = []\<rparr>)]
     = [(''subtotal'', \<lparr>value = VStr ''1,134.56'', confidence = 0.90, confidence_level = HIGH,
           location = None, original_text = Some ''1,134.56'', validation_errors = []\<rparr>),
        (''tax_amount'', \<lparr>value = VStr ''100.00'', confidence = 0.88,
           confidence_level = MEDIUM,
           location = None, original_text = Some ''100.00'', validation_errors = []\<rparr>),
        (''total_amount'', \<lparr>value = VStr ''1,234.56'', confidence = 0.95,
           confidence_level = HIGH,
           location = None, original_text = Some ''1,234.56'', validation_errors = []\<rparr>)]
   \<and> validate_invoice_math float_str
       [(''subtotal'', \<lparr>value = VStr ''1,134.56'', confidence = 0.90, confidence_level = HIGH,
           location = None, original_text = Some ''1,134.56'', validation_errors = []\<rparr>),
        (''tax_amount'', \<lparr>value = VStr ''100.00'', confidence = 0.88,
           confidence_level = MEDIUM,
           location = None, original_text = Some ''100.00'', validation_errors = []\<rparr>),
        (''total_amount'', \<lparr>value = VStr ''1,300.00'', confidence = 0.95,
           confidence_level = HIGH,
           location = None, original_text = Some ''1,300.00'', validation_errors = []\<rparr>)]
     = [(''subtotal'', \<lparr>value = VStr ''1,134.56'', confidence = 0.90, confidence_level = HIGH,
           location = None, original_text = Some ''1,134.56'', validation_errors = []\<rparr>),
        (''tax_amount'', \<lparr>value = VStr ''100.00'', confidence = 0.88,
           confidence_level = MEDIUM,
           location = None, original_text = Some ''100.00'', validation_errors = []\<rparr>),
        (''total_amount'', \<lparr>value = VStr ''1,300.00'', confidence = 0.76,
           confidence_level = HIGH,
           location = None, original_text = Some ''1,300.00'',
           validation_errors =
             [mismatch_message float_str (Finite 1300)
                (fadd (Finite (2494923824819077 / 2 ^ 41)) (Finite 100))]\<rparr>)]
   \<and> validate_invoice_math float_str
       [(''subtotal'', \<lparr>value = VStr ''1,134.56'', confidence = 0.90, confidence_level = HIGH,
           location = None, original_text = Some ''1,134.56'', validation_errors = []\<rparr>),
        (''tax_amount'', \<lparr>value = VStr [], confidence = 0.88, confidence_level = MEDIUM,
           location = None, original_text = Some [], validation_errors = []\<rparr>),
        (''total_amount'', \<lparr>value = VStr ''1,300.00'', confidence = 0.95,
           confidence_level = HIGH,
           location = None, original_text = Some ''1,300.00'', validation_errors = []\<rparr>)]
     = [(''subtotal'', \<lparr>value = VStr ''1,134.56'', confidence = 0.90, confidence_level = HIGH,
           location = None, original_text = Some ''1,134.56'', validation_errors = []\<rparr>),
        (''tax_amount'', \<lparr>value = VStr [], confidence = 0.88, confidence_level = MEDIUM,
           location = None, original_text = Some [], validation_errors = []\<rparr>),
        (''total_amount'', \<lparr>value = VStr ''1,300.00'', confidence = 0.95,
           confidence_level = HIGH,
           location = None, original_text = Some ''1,300.00'', validation_errors = []\<rparr>)]"
proof (intro allI conjI)
  fix float_str
  let ?sub = "\<lparr>value = VStr ''1,134.56'', confidence = 0.90, confidence_level = HIGH,
           location = None, original_text = Some ''1,134.56'', validation_errors = []\<rparr>"
  let ?tax = "\<lparr>value = VStr ''100.00'', confidence = 0.88,
           confidence_level = MEDIUM,
           location = None, original_text = Some ''100.00'', validation_errors = []\<rparr>"
  let ?notax = "\<lparr>value = VStr [], confidence = 0.88, confidence_level = MEDIUM,
           location = None, original_text = Some [], validation_errors = []\<rparr>"
  let ?tot = "\<lparr>value = VStr ''1,234.56'', confidence = 0.95,
           confidence_level = HIGH,
           location = None, original_text = Some ''1,234.56'', validation_errors = []\<rparr>"
  let ?tot' = "\<lparr>value = VStr ''1,300.00'', confidence = 0.95,
           confidence_level = HIGH,
           location = None, original_text = Some ''1,300.00'', validation_errors = []\<rparr>"
  let ?ok = "[(''subtotal'', ?sub), (''tax_amount'', ?tax), (''total_amount'', ?tot)]"
  let ?bad = "[(''subtotal'', ?sub), (''tax_amount'', ?tax), (''total_amount'', ?tot')]"
  let ?skip = "[(''subtotal'', ?sub), (''tax_amount'', ?notax), (''total_amount'', ?tot')]"
  have ok: "double_of_true_value ?ok ''subtotal'' = Some (Finite (2494923824819077 / 2 ^ 41))
      \<and> double_of_true_value ?ok ''tax_amount'' = Some (Finite 100)
      \<and> double_of_true_value ?ok ''total_amount'' = Some (Finite (2714826150374277 / 2 ^ 41))"
    using py_float_1134_56 py_float_100_00 py_float_1234_56
    by (simp add: double_of_true_value_def py_float_def)
  have bad: "double_of_true_value ?bad ''subtotal'' = Some (Finite (2494923824819077 / 2 ^ 41))
      \<and> double_of_true_value ?bad ''tax_amount'' = Some (Finite 100)
      \<and> double_of_true_value ?bad ''total_amount'' = Some (Finite 1300)"
    using py_float_1134_56 py_float_100_00 py_float_1300_00
    by (simp add: double_of_true_value_def py_float_def)
  have skip: "double_of_true_value ?skip ''subtotal'' = None
      \<or> double_of_true_value ?skip ''tax_amount'' = None
      \<or> double_of_true_value ?skip ''total_amount'' = None"
    by (simp add: double_of_true_value_def)
  show "validate_invoice_math float_str ?ok = ?ok"
    by (rule invoice_math_check_in_doubles [of ?ok float_str, THEN conjunct1, rule_format,
          OF ok, THEN conjunct1, rule_format, OF mock_invoice_passed])
  have "\<exists>f. map_of ?bad ''total_amount'' = Some f
      \<and> validate_invoice_math float_str ?bad =
          AList.update ''total_amount''
            (f\<lparr>validation_errors :=
                 validation_errors f
                   @ [mismatch_message float_str (Finite 1300)
                        (fadd (Finite (2494923824819077 / 2 ^ 41)) (Finite 100))],
               confidence := confidence f * 0.8\<rparr>)
            ?bad"
    by (rule invoice_math_check_in_doubles [of ?bad float_str, THEN conjunct1, rule_format,
          OF bad, THEN conjunct2, rule_format, OF mock_invoice_flagged])
  then show "validate_invoice_math float_str ?bad =
      [(''subtotal'', ?sub), (''tax_amount'', ?tax),
       (''total_amount'', \<lparr>value = VStr ''1,300.00'', confidence = 0.76,
           confidence_level = HIGH,
           location = None, original_text = Some ''1,300.00'',
           validation_errors =
             [mismatch_message float_str (Finite 1300)
                (fadd (Finite (2494923824819077 / 2 ^ 41)) (Finite 100))]\<rparr>)]"
    by auto
  show "validate_invoice_math float_str ?skip = ?skip"
    by (rule invoice_math_check_in_doubles [of ?skip float_str, THEN conjunct2, rule_format,
          OF skip])
qed

subsection \<open>C9: running validation a second time\<close>

text \<open>
  C9 as stated fails on the code. \<open>GeminiService.validate_extraction\<close> awards the bonus of
  0.05 on every run: the mock invoice field \<open>total_amount = 1,234.56\<close> at 0.90 is valid and
  free of errors after the first run, at 0.95, and the second run raises it to 1.0.
\<close>

theorem revalidation_counterexample:
  "\<not> (\<forall>strptime d t.
        (\<forall>(n, f) \<in> set (validate_extraction strptime d t). validation_errors f = []) \<longrightarrow>
        validate_extraction strptime (validate_extraction strptime d t) t
          = validate_extraction strptime d t)"
proof
  assume a: "\<forall>strptime d t.
        (\<forall>(n, f) \<in> set (validate_extraction strptime d t). validation_errors f = []) \<longrightarrow>
        validate_extraction strptime (validate_extraction strptime d t) t
          = validate_extraction strptime d t"
  let ?d = "[(''total_amount'', \<lparr>value = VStr ''1,234.56'', confidence = 0.90,
      confidence_level = HIGH, location = None, original_text = Some ''1,234.56'',
      validation_errors = []\<rparr>)]"
  have m: "amount_match ''1,234.56'' \<noteq> []"
    by (simp add: amount_match_def digit_or_dot_def is_digit_def)
  have 1: "validate_extraction (\<lambda>s fmt. False) ?d INVOICE =
      [(''total_amount'', \<lparr>value = VStr ''1,234.56'', confidence = 0.95,
      confidence_level = HIGH, location = None, original_text = Some ''1,234.56'',
      validation_errors = []\<rparr>)]"
    using m
    by (simp add: validate_extraction_def validate_extraction_field_def any_term_in_def
        lower_def lower_char_def validate_amount_field_def amount_1234_56 round_double_def
        bonus_def get_confidence_level_def Let_def)
  have 2: "validate_extraction (\<lambda>s fmt. False)
      [(''total_amount'', \<lparr>value = VStr ''1,234.56'', confidence = 0.95,
      confidence_level = HIGH, location = None, original_text = Some ''1,234.56'',
      validation_errors = []\<rparr>)] INVOICE =
      [(''total_amount'', \<lparr>value = VStr ''1,234.56'', confidence = 1,
      confidence_level = HIGH, location = None, original_text = Some ''1,234.56'',
      validation_errors = []\<rparr>)]"
    using m
    by (simp add: validate_extraction_def validate_extraction_field_def any_term_in_def
        lower_def lower_char_def validate_amount_field_def amount_1234_56 round_double_def
        bonus_def get_confidence_level_def Let_def)
  from a have "(\<forall>(n, f) \<in> set (validate_extraction (\<lambda>s fmt. False) ?d INVOICE). validation_errors f = []) \<longrightarrow>
        validate_extraction (\<lambda>s fmt. False) (validate_extraction (\<lambda>s fmt. False) ?d INVOICE) INVOICE
          = validate_extraction (\<lambda>s fmt. False) ?d INVOICE"
    by blast
  then show False
    unfolding 1 2 by simp
qed

text \<open>
  C9, amended. For \<open>ProductionDocumentService\<close>: a field whose value is a string, whose
  error list is empty, whose confidence level agrees with its confidence and in whose
  value the rules find no error is returned unchanged by \<open>_validate_and_correct_fields\<close>;
  and on a field set whose values are all strings and that the first run leaves without
  validation errors, a second run returns the result of the first.
  For \<open>GeminiService.validate_extraction\<close>: a field that a run leaves without validation
  errors keeps everything but its confidence and confidence level; the run adds the bonus
  of 0.05, capped at 1.0, when a rule applies to the field (its value is true and its name
  falls in the date, amount, email or phone category) and keeps the confidence otherwise,
  and recomputes the level. A second run does the same again, so that it returns the
  result of the first run exactly when no rule applies or the confidence before the
  first run was at least 0.95.
\<close>

theorem revalidation_amended:
  "(validate_field_content n (VStr s) t = [] \<longrightarrow>
      validate_and_correct_field n
        \<lparr>value = VStr s, confidence = c, confidence_level = get_confidence_level c,
         location = l, original_text = ot, validation_errors = []\<rparr> t
      = \<lparr>value = VStr s, confidence = c, confidence_level = get_confidence_level c,
         location = l, original_text = ot, validation_errors = []\<rparr>)
   \<and> ((\<forall>(n, f) \<in> set d. \<exists>s. value f = VStr s)
        \<and> (\<forall>(n, f) \<in> set (validate_and_correct_fields d t). validation_errors f = []) \<longrightarrow>
        validate_and_correct_fields (validate_and_correct_fields d t) t
          = validate_and_correct_fields d t)
   \<and> (validation_errors (validate_extraction_field sp n f) = [] \<longrightarrow>
        validate_extraction_field sp n f
          = f\<lparr>confidence :=
                 (if rule_applies n f then min (confidence f + 0.05) 1 else confidence f),
               confidence_level :=
                 get_confidence_level
                   (if rule_applies n f then min (confidence f + 0.05) 1
                    else confidence f)\<rparr>
        \<and> validate_extraction_field sp n (validate_extraction_field sp n f)
          = f\<lparr>confidence :=
                 (if rule_applies n f then min (confidence f + 0.1) 1 else confidence f),
               confidence_level :=
                 get_confidence_level
                   (if rule_applies n f then min (confidence f + 0.1) 1
                    else confidence f)\<rparr>
        \<and> (validate_extraction_field sp n (validate_extraction_field sp n f)
              = validate_extraction_field sp n f)
            = (\<not> rule_applies n f \<or> confidence f \<ge> 0.95))"
proof (intro conjI impI)
  assume v: "validate_field_content n (VStr s) t = []"
  show "validate_and_correct_field n
        \<lparr>value = VStr s, confidence = c, confidence_level = get_confidence_level c,
         location = l, original_text = ot, validation_errors = []\<rparr> t
      = \<lparr>value = VStr s, confidence = c, confidence_level = get_confidence_level c,
         location = l, original_text = ot, validation_errors = []\<rparr>"
    by (subst validate_and_correct_field_valid [OF v]) simp_all
next
  assume "(\<forall>(n, f) \<in> set d. \<exists>s. value f = VStr s)
        \<and> (\<forall>(n, f) \<in> set (validate_and_correct_fields d t). validation_errors f = [])"
  then show "validate_and_correct_fields (validate_and_correct_fields d t) t
          = validate_and_correct_fields d t"
    using validate_and_correct_fields_idem [of d t] by blast
next
  assume e: "validation_errors (validate_extraction_field sp n f) = []"
  show "validate_extraction_field sp n f
          = f\<lparr>confidence :=
                 (if rule_applies n f then min (confidence f + 0.05) 1 else confidence f),
               confidence_level :=
                 get_confidence_level
                   (if rule_applies n f then min (confidence f + 0.05) 1
                    else confidence f)\<rparr>"
    by (rule validate_extraction_field_valid [OF e])
  show "validate_extraction_field sp n (validate_extraction_field sp n f)
          = f\<lparr>confidence :=
                 (if rule_applies n f then min (confidence f + 0.1) 1 else confidence f),
               confidence_level :=
                 get_confidence_level
                   (if rule_applies n f then min (confidence f + 0.1) 1
                    else confidence f)\<rparr>"
    by (rule validate_extraction_field_twice [OF e])
  show "(validate_extraction_field sp n (validate_extraction_field sp n f)
              = validate_extraction_field sp n f)
            = (\<not> rule_applies n f \<or> confidence f \<ge> 0.95)"
    by (rule validate_extraction_field_fixed [OF e])
qed

text \<open>
  A \<open>total_amount\<close> of \<open>$1,234.56\<close> at 0.98 passes the amount rule of the production
  service and is returned unchanged, by the first run and by the second. The validator of
  \<open>GeminiService\<close> finds no error in the mock \<open>total_amount\<close> of \<open>1,234.56\<close> at 0.90: the
  first run gives 0.95, the second 1.0, and the two results differ.
\<close>

theorem revalidation_witness:
  "validate_and_correct_field ''total_amount''
     \<lparr>value = VStr ''$1,234.56'', confidence = 0.98, confidence_level = HIGH,
      location = None, original_text = Some ''$1,234.56'', validation_errors = []\<rparr> INVOICE
   = \<lparr>value = VStr ''$1,234.56'', confidence = 0.98, confidence_level = HIGH,
      location = None, original_text = Some ''$1,234.56'', validation_errors = []\<rparr>
   \<and> validate_and_correct_fields
       (validate_and_correct_fields
          [(''total_amount'',
            \<lparr>value = VStr ''$1,234.56'', confidence = 0.98, confidence_level = HIGH,
             location = None, original_text = Some ''$1,234.56'',
             validation_errors = []\<rparr>)]
          INVOICE) INVOICE
     = validate_and_correct_fields
          [(''total_amount'',
            \<lparr>value = VStr ''$1,234.56'', confidence = 0.98, confidence_level = HIGH,
             location = None, original_text = Some ''$1,234.56'',
             validation_errors = []\<rparr>)]
          INVOICE
   \<and> validate_extraction_field (\<lambda>s fmt. False) ''total_amount''
       \<lparr>value = VStr ''1,234.56'', confidence = 0.90, confidence_level = HIGH,
        location = None, original_text = Some ''1,234.56'', validation_errors = []\<rparr>
     = \<lparr>value = VStr ''1,234.56'', confidence = 0.95, confidence_level = HIGH,
        location = None, original_text = Some ''1,234.56'', validation_errors = []\<rparr>
   \<and> validate_extraction_field (\<lambda>s fmt. False) ''total_amount''
       (validate_extraction_field (\<lambda>s fmt. False) ''total_amount''
          \<lparr>value = VStr ''1,234.56'', confidence = 0.90, confidence_level = HIGH,
           location = None, original_text = Some ''1,234.56'', validation_errors = []\<rparr>)
     = \<lparr>value = VStr ''1,234.56'', confidence = 1, confidence_level = HIGH,
        location = None, original_text = Some ''1,234.56'', validation_errors = []\<rparr>
   \<and> validate_extraction_field (\<lambda>s fmt. False) ''total_amount''
       (validate_extraction_field (\<lambda>s fmt. False) ''total_amount''
          \<lparr>value = VStr ''1,234.56'', confidence = 0.90, confidence_level = HIGH,
           location = None, original_text = Some ''1,234.56'', validation_errors = []\<rparr>)
     \<noteq> validate_extraction_field (\<lambda>s fmt. False) ''total_amount''
          \<lparr>value = VStr ''1,234.56'', confidence = 0.90, confidence_level = HIGH,
           location = None, original_text = Some ''1,234.56'', validation_errors = []\<rparr>"
proof -
  let ?p = "\<lparr>value = VStr ''$1,234.56'', confidence = 0.98, confidence_level = HIGH,
      location = None, original_text = Some ''$1,234.56'', validation_errors = []\<rparr>"
  let ?g = "\<lparr>value = VStr ''1,234.56'', confidence = 0.90, confidence_level = HIGH,
        location = None, original_text = Some ''1,234.56'', validation_errors = []\<rparr>"
  let ?sp = "\<lambda>(s :: string) (fmt :: string). False"
  note inst = revalidation_amended [where n = "''total_amount''" and s = "''$1,234.56''"
      and t = INVOICE and c = "0.98" and l = None and ot = "Some ''$1,234.56''"
      and d = "[(''total_amount'', ?p)]" and sp = ?sp and f = ?g]
  have v: "validate_field_content ''total_amount'' (VStr ''$1,234.56'') INVOICE = []"
    by (simp add: validate_field_content_def any_term_in_def currency_terms_def lower_def
        lower_char_def strip_def is_space_def re_search_def amount_pattern_def RSeq_def
        RPlus_def ROpt_def RChr_def RAny_def is_digit_def)
  have high: "get_confidence_level 0.98 = HIGH"
    by (simp add: get_confidence_level_def)
  have run1: "validate_and_correct_fields [(''total_amount'', ?p)] INVOICE
      = [(''total_amount'', ?p)]"
    by (simp add: validate_and_correct_fields_def validate_and_correct_field_def v
        auto_correct_field_def get_confidence_level_def Let_def)
  have strings: "(\<forall>(n, f) \<in> set [(''total_amount'', ?p)]. \<exists>s. value f = VStr s)
      \<and> (\<forall>(n, f) \<in> set (validate_and_correct_fields [(''total_amount'', ?p)] INVOICE).
            validation_errors f = [])"
    unfolding run1 by simp
  have m: "amount_match ''1,234.56'' \<noteq> []"
    by (simp add: amount_match_def digit_or_dot_def is_digit_def)
  have e: "validation_errors (validate_extraction_field ?sp ''total_amount'' ?g) = []"
    using m
    by (simp add: validate_extraction_field_def any_term_in_def lower_def lower_char_def
        validate_amount_field_def amount_1234_56 round_double_def bonus_def Let_def)
  have r: "rule_applies ''total_amount'' ?g"
    by (simp add: rule_applies_def any_term_in_def lower_def lower_char_def)
  from inst [THEN conjunct1, THEN mp, OF v]
  have A: "validate_and_correct_field ''total_amount'' ?p INVOICE = ?p"
    unfolding high .
  from inst [THEN conjunct2, THEN conjunct1, THEN mp, OF strings]
  have B: "validate_and_correct_fields
       (validate_and_correct_fields [(''total_amount'', ?p)] INVOICE) INVOICE
     = validate_and_correct_fields [(''total_amount'', ?p)] INVOICE" .
  note G = inst [THEN conjunct2, THEN conjunct2, THEN mp, OF e]
  have C: "validate_extraction_field ?sp ''total_amount'' ?g
      = \<lparr>value = VStr ''1,234.56'', confidence = 0.95, confidence_level = HIGH,
        location = None, original_text = Some ''1,234.56'', validation_errors = []\<rparr>"
    unfolding G [THEN conjunct1] using r by (simp add: get_confidence_level_def)
  have D: "validate_extraction_field ?sp ''total_amount''
        (validate_extraction_field ?sp ''total_amount'' ?g)
      = \<lparr>value = VStr ''1,234.56'', confidence = 1, confidence_level = HIGH,
        location = None, original_text = Some ''1,234.56'', validation_errors = []\<rparr>"
    unfolding G [THEN conjunct2, THEN conjunct1] using r
    by (simp add: get_confidence_level_def)
  have E: "validate_extraction_field ?sp ''total_amount''
        (validate_extraction_field ?sp ''total_amount'' ?g)
      \<noteq> validate_extraction_field ?sp ''total_amount'' ?g"
  proof
    assume "validate_extraction_field ?sp ''total_amount''
        (validate_extraction_field ?sp ''total_amount'' ?g)
      = validate_extraction_field ?sp ''total_amount'' ?g"
    then have "\<not> rule_applies ''total_amount'' ?g \<or> confidence ?g \<ge> 0.95"
      by (simp only: G [THEN conjunct2, THEN conjunct2])
    with r show False by simp
  qed
  from A B C D E show ?thesis by blast
qed

subsection \<open>C1: merging the focused pass into the general pass\<close>

text \<open>
  C1 as stated fails on the code. The merge is \<open>{**general_fields, **focused_fields}\<close>:
  every field that the focused reply contains replaces the general one, empty or not. The
  general pass finds only \<open>vendor_name = Globex Ltd\<close>; three critical fields are missing,
  the focused call fails, the service falls back to its mock reply, and the mock
  \<open>vendor_name = ACME Corporation\<close> replaces the non-empty general value.
\<close>

theorem merge_claim_counterexample:
  "\<not> (\<forall>g img t G log F k f.
        extract_with_enhanced_prompt g img t = Inr G \<longrightarrow>
        extract_missing_fields g img t G = (log, Inr F) \<longrightarrow>
        map_of G k = Some f \<longrightarrow> truthy (value f) \<longrightarrow>
        map_of (combine_fields G F) k = Some f)"
proof
  assume a: "\<forall>g img t G log F k f.
        extract_with_enhanced_prompt g img t = Inr G \<longrightarrow>
        extract_missing_fields g img t G = (log, Inr F) \<longrightarrow>
        map_of G k = Some f \<longrightarrow> truthy (value f) \<longrightarrow>
        map_of (combine_fields G F) k = Some f"
  define g where "g =
    \<lparr>use_real_api = True,
     generate_content =
       (\<lambda>img p. case p of
          GeneralPrompt t \<Rightarrow>
            Some (Json [(''vendor_name'', JDict (Some (VStr ''Globex Ltd'')) (ConfNumber 0.9) None)])
        | _ \<Rightarrow> None),
     detected_type = (\<lambda>img. INVOICE)\<rparr>"
  define img where "img =
    \<lparr>decodable = True, preparable = True, enhanceable = True, enhanced_for = None\<rparr>"
  define globex where "globex =
    \<lparr>value = VStr ''Globex Ltd'', confidence = 0.9, confidence_level = HIGH, location = None,
     original_text = Some ''Globex Ltd'', validation_errors = []\<rparr>"
  define acme where "acme =
    \<lparr>value = VStr ''ACME Corporation'', confidence = 0.95, confidence_level = HIGH, location = None,
     original_text = Some ''ACME Corporation'', validation_errors = []\<rparr>"
  define F where "F = parse_enhanced_response (Json mock_json)"
  have general: "extract_with_enhanced_prompt g img INVOICE = Inr [(''vendor_name'', globex)]"
    by (simp add: extract_with_enhanced_prompt_def g_def img_def globex_def
        get_gemini_response_simple_def parse_enhanced_response_def confidence_of_def
        new_extracted_field_def get_confidence_level_def)
  have missing: "missing_fields INVOICE [(''vendor_name'', globex)]
      = [''invoice_number'', ''total_amount'', ''invoice_date'']"
    by (simp add: missing_fields_def critical_fields_def globex_def)
  have no_phrase: "\<not> str_in ''document type''
      (lower ''invoice_number, total_amount, invoice_date'')"
    by (simp add: lower_def lower_char_def)
  have focused: "extract_missing_fields g img INVOICE [(''vendor_name'', globex)]
      = ([FOCUSED_PASS], Inr F)"
    by (simp add: extract_missing_fields_def missing no_phrase g_def img_def F_def
        get_gemini_response_simple_def get_mock_simple_response_def)
  have F_vendor: "map_of F ''vendor_name'' = Some acme"
    by (simp add: F_def parse_enhanced_response_def mock_json_def confidence_of_def
        new_extracted_field_def get_confidence_level_def acme_def)
  have merged: "map_of (combine_fields [(''vendor_name'', globex)] F) ''vendor_name'' = Some acme"
    unfolding F_def
    using map_of_combine_fields [of "[(''vendor_name'', globex)]" "Json mock_json" "''vendor_name''"]
      F_vendor [unfolded F_def]
    by simp
  have "map_of (combine_fields [(''vendor_name'', globex)] F) ''vendor_name'' = Some globex"
    using a general focused by (simp add: globex_def)
  with merged have "acme = globex" by simp
  then have "value acme = value globex" by simp
  then show False by (simp add: acme_def globex_def)
qed

text \<open>
  C1, amended. For every general candidate set and every focused reply, merging the
  focused candidate set into the general one gives every field of the focused set the
  focused value, whether the general value is empty or not; a field that the focused set
  does not contain keeps its general value, and fields absent from the general set are
  added.
\<close>

theorem merge_overwrites:
  "map_of (combine_fields G (parse_enhanced_response r)) k =
     (case map_of (parse_enhanced_response r) k of
        Some f \<Rightarrow> Some f
      | None \<Rightarrow> map_of G k)
   \<and> set (map fst (combine_fields G (parse_enhanced_response r)))
       = set (map fst G) \<union> set (map fst (parse_enhanced_response r))"
  unfolding combine_fields_def dict_update_def
  using map_of_fold_update [OF parse_enhanced_response_distinct, of r G k]
    keys_fold_update [of "parse_enhanced_response r" G]
  by simp

text \<open>
  The example of the specification: the general pass has an empty \<open>invoice_number\<close>, the
  focused pass returns \<open>INV-2025-001\<close> at 0.9, and the merged set has the focused value.
\<close>

theorem merge_overwrites_witness:
  "map_of
     (combine_fields
        [(''invoice_number'',
          \<lparr>value = VStr [], confidence = 0.5, confidence_level = LOW, location = None,
           original_text = Some [], validation_errors = []\<rparr>)]
        (parse_enhanced_response
           (Json [(''invoice_number'', JDict (Some (VStr ''INV-2025-001'')) (ConfNumber 0.9) None)])))
     ''invoice_number''
   = Some \<lparr>value = VStr ''INV-2025-001'', confidence = 0.9, confidence_level = HIGH,
           location = None, original_text = Some ''INV-2025-001'', validation_errors = []\<rparr>"
  using merge_overwrites [of
      "[(''invoice_number'',
          \<lparr>value = VStr [], confidence = 0.5, confidence_level = LOW, location = None,
           original_text = Some [], validation_errors = []\<rparr>)]"
      "Json [(''invoice_number'', JDict (Some (VStr ''INV-2025-001'')) (ConfNumber 0.9) None)]"
      "''invoice_number''"]
  by (simp add: parse_enhanced_response_def confidence_of_def new_extracted_field_def
      get_confidence_level_def)

subsection \<open>C3: the cascade of grounding strategies\<close>

text \<open>
  C3 as stated fails on the code. \<open>_find_field_location\<close> returns at the first strategy
  that produces a location. \<open>_validate_location\<close> is consulted inside
  \<open>_improve_location_accuracy\<close>, where a failed check only starts a search by field
  name, and the field name passed is the empty string, so that search finds nothing and
  the hit is kept. On a page whose title block \<open>INVOICE\<close> spans 90 percent of the width,
  the value \<open>INVOICE\<close> is matched exactly; the box has width 0.9, above the bound 0.8; no
  other block exists, so the cascade of the specification ends without a location, and the
  code returns the box.
\<close>

theorem cascade_claim_counterexample:
  "\<not> (\<forall>ratio v ocr. find_field_location ratio v ocr = cascade_as_specified ratio v ocr)"
proof
  assume a: "\<forall>ratio v ocr. find_field_location ratio v ocr = cascade_as_specified ratio v ocr"
  define ocr where "ocr = \<lparr>text_blocks = [title_block], image_dimensions = Some (1000, 1200)\<rparr>"
  define ratio where "ratio = (\<lambda>a b :: string. if a = b then 1 else 0 :: real)"
  have dims: "dimensions_of ocr = (1000, 1200)" and bs: "text_blocks ocr = [title_block]"
    by (simp_all add: ocr_def dimensions_of_def)
  have code: "find_field_location ratio ''INVOICE'' ocr
      = Some \<lparr>x = 0.05, y = 1 / 30, width = 0.9, height = 1 / 24\<rparr>"
    unfolding ocr_def by (rule title_found)
  have implausible: "\<not> plausible \<lparr>x = 0.05, y = 1 / 30, width = 0.9, height = 1 / 24\<rparr>"
    by (simp add: plausible_def)
  have "first_plausible_hit (strategy_results ratio ''INVOICE'' ocr) = None"
  proof (rule no_plausible_hit)
    fix r loc
    assume "r \<in> set (strategy_results ratio ''INVOICE'' ocr)" and "r = Inr (Some loc)"
    then obtain b where "b \<in> set (text_blocks ocr)"
      and "block_location b (dimensions_of ocr) = Inr loc"
      by (blast dest: strategy_hit_is_block)
    then have "loc = \<lparr>x = 0.05, y = 1 / 30, width = 0.9, height = 1 / 24\<rparr>"
      by (simp add: bs dims title_location)
    with implausible show "\<not> plausible loc" by simp
  qed
  then have "cascade_as_specified ratio ''INVOICE'' ocr = None"
    by (simp add: cascade_as_specified_def)
  with a code show False by simp
qed

text \<open>
  C3, amended. The strategies exact, fuzzy, partial, pattern and contextual are evaluated
  in this order, and the first one that produces a hit ends the cascade, whether the box
  of the hit satisfies the plausibility bounds or not; a strategy that raises ends it with
  no location. The hit is returned after \<open>_refine_bounding_box\<close> has widened it to the
  minimum size for the length of the value. The result is absent when there are no text
  blocks, when the value is empty, or when no strategy produces a hit.
\<close>

theorem cascade_first_hit_wins:
  "find_field_location ratio v ocr =
     (if text_blocks ocr = [] \<or> v = [] then None
      else map_option
             (\<lambda>loc. refine_bounding_box loc (strip v) (text_blocks ocr) (dimensions_of ocr))
             (first_hit (strategy_results ratio v ocr)))"
proof (cases "text_blocks ocr = [] \<or> v = []")
  case True
  then show ?thesis
    by (simp only: find_field_location_nothing if_True)
next
  case False
  then have "text_blocks ocr \<noteq> []" and "v \<noteq> []" by simp_all
  then have "find_field_location ratio v ocr =
     map_option (\<lambda>loc. refine_bounding_box loc (strip v) (text_blocks ocr) (dimensions_of ocr))
       (first_hit (strategy_results ratio v ocr))"
    by (rule find_field_location_first_hit)
  with False show ?thesis by simp
qed

text \<open>
  The title block is found by the exact strategy and returned, at width 0.9; with no text
  blocks nothing is found.
\<close>

theorem cascade_first_hit_witness:
  "(\<forall>ratio. find_field_location ratio ''INVOICE''
       \<lparr>text_blocks = [title_block], image_dimensions = Some (1000, 1200)\<rparr>
     = Some \<lparr>x = 0.05, y = 1 / 30, width = 0.9, height = 1 / 24\<rparr>)
   \<and> (\<forall>ratio. find_field_location ratio ''INVOICE''
       \<lparr>text_blocks = [], image_dimensions = Some (1000, 1200)\<rparr> = None)"
proof (intro conjI allI)
  fix ratio
  let ?ocr = "\<lparr>text_blocks = [title_block], image_dimensions = Some (1000, 1200)\<rparr>"
  have "find_field_location ratio ''INVOICE'' ?ocr =
     map_option (\<lambda>loc. refine_bounding_box loc (strip ''INVOICE'') (text_blocks ?ocr)
                        (dimensions_of ?ocr))
       (first_hit (strategy_results ratio ''INVOICE'' ?ocr))"
    using cascade_first_hit_wins [of ratio "''INVOICE''" ?ocr] by simp
  also have "\<dots> = Some (refine_bounding_box
      \<lparr>x = 0.05, y = 1 / 30, width = 0.9, height = 1 / 24\<rparr>
      (strip ''INVOICE'') (text_blocks ?ocr) (dimensions_of ?ocr))"
    unfolding title_hit by simp
  also have "strip ''INVOICE'' = ''INVOICE''"
    by (simp add: strip_def is_space_def)
  finally show "find_field_location ratio ''INVOICE'' ?ocr
     = Some \<lparr>x = 0.05, y = 1 / 30, width = 0.9, height = 1 / 24\<rparr>"
    by (simp only: title_refined)
next
  fix ratio
  show "find_field_location ratio ''INVOICE''
       \<lparr>text_blocks = [], image_dimensions = Some (1000, 1200)\<rparr> = None"
    using cascade_first_hit_wins [of ratio "''INVOICE''"
        "\<lparr>text_blocks = [], image_dimensions = Some (1000, 1200)\<rparr>"]
    by simp
qed

subsection \<open>C8: locations stay on the page\<close>

text \<open>
  C8 fails on the code, which contradicts its own comments in two places.
  \<open>_refine_bounding_box\<close> widens a box to \<open>0.008\<close> per character of the value and then
  moves it left, under the comment \<open>Ensure we don't exceed image bounds\<close>, to
  \<open>min(x, 1 - width)\<close>: for a value of 130 characters, matched exactly by a line that
  spans (100, 200) to (900, 220) on a page of 1000 by 1200 pixels, the hit
  \<open>(0.1, 1/6, 0.8, 1/60)\<close> satisfies every bound of the claim and the returned box has
  \<open>x = -0.04\<close> and \<open>width = 1.04\<close>.
  \<open>_add_spatial_coordinates\<close>, which attaches a location to every field of a production
  session, computes the width as \<open>0.3 + (0.2 * hash(field_name) % 3) / 3\<close> under the
  comments \<open>Simulate realistic spatial coordinates\<close> and \<open>Varied widths\<close>; \<open>%\<close> is applied
  to \<open>0.2 * hash(field_name)\<close>, so the width ranges up to 1.3. The second field of a set
  is placed at \<open>x = 0.9\<close> and its box ends at 1.2 or beyond whatever the hash; for a name
  whose hash is 14 the width is \<open>37/30\<close>.
\<close>

theorem refined_box_leaves_page:
  "(\<forall>ratio. find_field_location ratio long_value
        \<lparr>text_blocks = [long_block], image_dimensions = Some (1000, 1200)\<rparr>
      = Some \<lparr>x = - 0.04, y = 1 / 6, width = 1.04, height = 1 / 60\<rparr>)
   \<and> block_location long_block (1000, 1200)
       = Inr \<lparr>x = 0.1, y = 1 / 6, width = 0.8, height = 1 / 60\<rparr>
   \<and> plausible \<lparr>x = 0.1, y = 1 / 6, width = 0.8, height = 1 / 60\<rparr>
   \<and> \<not> plausible \<lparr>x = - 0.04, y = 1 / 6, width = 1.04, height = 1 / 60\<rparr>
   \<and> (\<forall>hash name.
         location (snd (add_spatial_coordinates hash
                          [(''vendor_name'', mock_field ''ACME Corporation'' 0.95),
                           (name, mock_field ''1,234.56'' 0.95)] ! 1))
           = Some (simulated_location hash 2 1 name)
         \<and> x (simulated_location hash 2 1 name) = 0.9
         \<and> x (simulated_location hash 2 1 name) + width (simulated_location hash 2 1 name)
             \<ge> 1.2)
   \<and> simulated_location (\<lambda>name. 14) 2 1 ''total_amount''
       = \<lparr>x = 0.9, y = 0.5, width = 37 / 30, height = 0.05\<rparr>"
proof (intro conjI allI)
  fix ratio
  let ?ocr = "\<lparr>text_blocks = [long_block], image_dimensions = Some (1000, 1200)\<rparr>"
  have "find_field_location ratio long_value ?ocr =
     map_option (\<lambda>loc. refine_bounding_box loc (strip long_value) (text_blocks ?ocr)
                        (dimensions_of ?ocr))
       (first_hit (strategy_results ratio long_value ?ocr))"
    by (rule find_field_location_first_hit) (simp_all add: long_value_not_empty)
  also have "\<dots> = Some (refine_bounding_box
      \<lparr>x = 0.1, y = 1 / 6, width = 0.8, height = 1 / 60\<rparr>
      (strip long_value) (text_blocks ?ocr) (dimensions_of ?ocr))"
    unfolding long_block_hit by simp
  finally show "find_field_location ratio long_value ?ocr
      = Some \<lparr>x = - 0.04, y = 1 / 6, width = 1.04, height = 1 / 60\<rparr>"
    by (simp only: long_value_stripped long_value_refined)
next
  show "block_location long_block (1000, 1200)
       = Inr \<lparr>x = 0.1, y = 1 / 6, width = 0.8, height = 1 / 60\<rparr>"
    by (rule long_block_location)
  show "plausible \<lparr>x = 0.1, y = 1 / 6, width = 0.8, height = 1 / 60\<rparr>"
    by (simp add: plausible_def)
  show "\<not> plausible \<lparr>x = - 0.04, y = 1 / 6, width = 1.04, height = 1 / 60\<rparr>"
    by (simp add: plausible_def)
next
  fix hash :: "string \<Rightarrow> int" and name :: string
  show "location (snd (add_spatial_coordinates hash
                          [(''vendor_name'', mock_field ''ACME Corporation'' 0.95),
                           (name, mock_field ''1,234.56'' 0.95)] ! 1))
           = Some (simulated_location hash 2 1 name)"
    by (simp add: add_spatial_coordinates_def enumerate_eq_zip upt_rec numeral_2_eq_2)
  show "x (simulated_location hash 2 1 name) = 0.9"
    by (simp add: simulated_location_def)
  show "x (simulated_location hash 2 1 name) + width (simulated_location hash 2 1 name)
             \<ge> 1.2"
    using simulated_right_edge [of hash 2 name] by simp
next
  show "simulated_location (\<lambda>name. 14) 2 1 ''total_amount''
       = \<lparr>x = 0.9, y = 0.5, width = 37 / 30, height = 0.05\<rparr>"
    by (simp add: simulated_location_def fmod_def)
qed

end
